theory Spec2Isabelle
  imports
    Main
    "HOL-Library.Word"
    "HOL-Library.Char_ord"
    "HOL-Library.List_Lexorder"
    "HOL-Library.Multiset"
    "HOL-Library.Sublist"
begin

unbundle bit_operations_syntax

section \<open>The chown engine of coreutils/chown/chown.go\<close>

text \<open>
  The program talks to the operating system all the time, and the file system may change
  between two calls (this is what the restricted change is about). The embedding therefore
  keeps the operating system as an oracle \<open>E\<close>: for every system call a function from the
  time of the call and its arguments to its result. The program state is the \<open>world\<close>:
  the trace of everything the program did so far (system calls and printed lines, oldest
  first), a clock counting the system calls, and the global flag \<open>DO_NOT_FOLLOW\<close>.
  Go's \<open>int\<close> is modelled as \<open>int\<close> (no arithmetic is done on it), \<open>uint32\<close> and
  \<open>uint64\<close>/\<open>uintptr\<close> as words (64-bit platform). A Go panic is the result \<open>Panic\<close>.
\<close>

subsection \<open>Data\<close>

type_synonym path = string

datatype errno = EACCES | EPERM | ENOENT | EBADF | ENOTDIR | EINVAL | ENOTSUP | EIO

text \<open>\<open>os.IsPermission\<close>: the error is EACCES or EPERM.\<close>

definition IsPermission :: "errno \<Rightarrow> bool" where
  "IsPermission e = (e = EACCES \<or> e = EPERM)"

text \<open>\<open>syscall.Stat_t\<close>, the fields the program reads.\<close>

record stat_t =
  st_dev :: "64 word"
  st_ino :: "64 word"
  st_mode :: "32 word"
  st_uid :: "32 word"
  st_gid :: "32 word"

text \<open>The zero value \<open>syscall.Stat_t{}\<close>.\<close>

definition zero_stat :: stat_t where
  "zero_stat = \<lparr>st_dev = 0, st_ino = 0, st_mode = 0, st_uid = 0, st_gid = 0\<rparr>"

text \<open>
  \<open>os.FileInfo\<close>: the mode (an \<open>os.FileMode\<close>) and the identity \<open>os.SameFile\<close> compares.
  A nil \<open>os.FileInfo\<close> is \<open>None\<close>.
\<close>

record fileinfo =
  fi_mode :: "32 word"
  fi_dev :: "64 word"
  fi_ino :: "64 word"

text \<open>Lines 16-17 and 104-130. A variable declared \<open>var status RCStatus\<close> starts at 0,
  which is none of the named constants: \<open>RC_ZERO\<close>.\<close>

datatype RCStatus =
  RC_ZERO | RC_OK | RC_EXCLUDED | RC_INODE_CHANGED | RC_DO_ORDINARY_CHOWN | RC_ERROR

datatype CHStatus =
  CH_ZERO | CH_NOT_APPLIED | CH_SUCCEEDED | CH_FAILED | CH_NO_CHANGE_REQUESTED

datatype 'a res = Normal 'a | Panic

text \<open>Lines 77-102.\<close>

definition ROOT_INODE :: "64 word" where
  "ROOT_INODE = 2"

definition MAX_INT :: int where
  "MAX_INT = 2 ^ 63 - 1"

definition ModeDir :: "32 word" where
  "ModeDir = push_bit 31 1"

definition ModeSymlink :: "32 word" where
  "ModeSymlink = push_bit 27 1"

definition ModeDevice :: "32 word" where
  "ModeDevice = push_bit 26 1"

definition ModeNamedPipe :: "32 word" where
  "ModeNamedPipe = push_bit 25 1"

definition ModeSocket :: "32 word" where
  "ModeSocket = push_bit 24 1"

definition ModeCharDevice :: "32 word" where
  "ModeCharDevice = push_bit 21 1"

definition ModeType :: "32 word" where
  "ModeType = ModeDir OR ModeSymlink OR ModeNamedPipe OR ModeSocket OR ModeDevice"

text \<open>
  \<open>os.FileMode.IsDir\<close> and \<open>os.FileMode.IsRegular\<close> are methods of the \<open>os\<close> package:
  they use the package's own mask of type bits, not the copy of line 99. In the current
  package the mask also has \<open>ModeCharDevice\<close> and \<open>ModeIrregular\<close> (bit 19, which the
  source does not copy).
\<close>

definition ModeIrregular :: "32 word" where
  "ModeIrregular = push_bit 19 1"

definition os_ModeType :: "32 word" where
  "os_ModeType = ModeDir OR ModeSymlink OR ModeNamedPipe OR ModeSocket OR ModeDevice
     OR ModeCharDevice OR ModeIrregular"

definition IsDir :: "32 word \<Rightarrow> bool" where
  "IsDir m = (m AND ModeDir \<noteq> 0)"

definition IsRegular :: "32 word \<Rightarrow> bool" where
  "IsRegular m = (m AND os_ModeType = 0)"

text \<open>The conversion \<open>uint32(x)\<close> of an \<open>int\<close>.\<close>

definition uint32 :: "int \<Rightarrow> 32 word" where
  "uint32 x = word_of_int x"

text \<open>\<open>os.SameFile\<close>: false when either side is not a file status (nil), else the same
  device and inode.\<close>

definition SameFile :: "fileinfo option \<Rightarrow> fileinfo option \<Rightarrow> bool" where
  "SameFile a b =
     (case a of None \<Rightarrow> False
      | Some x \<Rightarrow> (case b of None \<Rightarrow> False
          | Some y \<Rightarrow> fi_dev x = fi_dev y \<and> fi_ino x = fi_ino y))"

subsection \<open>What the program does to the world\<close>

datatype access = O_RDONLY | O_WRONLY

datatype msg =
    MsgErr errno path
  | MsgRootRefused
  | MsgRootWarning
  | MsgNotPermitted path
  | MsgNotPermittedFd int
  | MsgInodeChanged path
  | MsgCannotLstat path
  | MsgCannotStat path
  | MsgNeither path
  | MsgChangedOwnership path string string
  | MsgChangedGroup path string string
  | MsgNoChangeIn path
  | MsgFailedOwnership path string string
  | MsgFailedGroup path string string
  | MsgFailedPlain path
  | MsgRetainedAs path string
  | MsgRetained path

datatype event =
    EvOpen path
  | EvSysStat path
  | EvOsStat path
  | EvOsLstat path
  | EvOpenat int path access bool
  | EvFstat int
  | EvFchown int int int
  | EvClose int
  | EvLchown path int int
  | EvChown path int int
  | EvReaddirnames "64 word"
  | EvFileClose "64 word"
  | EvReadlink path
  | EvPrint msg

record world =
  trace :: "event list"
  clock :: nat
  DO_NOT_FOLLOW :: bool

definition world0 :: world where
  "world0 = \<lparr>trace = [], clock = 0, DO_NOT_FOLLOW = False\<rparr>"

text \<open>
  The oracle. Every answer may depend on the time (the number of system calls made so
  far), so that the file system can change under the program. \<open>os.Open\<close> answers with
  the descriptor \<open>Fd()\<close> of the opened file; \<open>syscall.Openat\<close> with the pair
  \<open>(fd, err)\<close> as Go returns it; the flag of \<open>EvOpenat\<close> is \<open>O_DIRECTORY\<close>.
  \<open>filepath_Join\<close> is \<open>filepath.Join\<close>; \<open>uid_name\<close> and \<open>gid_name\<close> are the lookups
  of \<open>os/user\<close>.
\<close>

record os =
  open_r :: "nat \<Rightarrow> path \<Rightarrow> errno + 64 word"
  sysstat_r :: "nat \<Rightarrow> path \<Rightarrow> errno + stat_t"
  osstat_r :: "nat \<Rightarrow> path \<Rightarrow> errno + fileinfo"
  oslstat_r :: "nat \<Rightarrow> path \<Rightarrow> errno + fileinfo"
  openat_r :: "nat \<Rightarrow> int \<Rightarrow> path \<Rightarrow> access \<Rightarrow> bool \<Rightarrow> int \<times> errno option"
  fstat_r :: "nat \<Rightarrow> int \<Rightarrow> errno + stat_t"
  fchown_r :: "nat \<Rightarrow> int \<Rightarrow> int \<Rightarrow> int \<Rightarrow> errno option"
  close_r :: "nat \<Rightarrow> int \<Rightarrow> errno option"
  lchown_r :: "nat \<Rightarrow> path \<Rightarrow> int \<Rightarrow> int \<Rightarrow> errno option"
  chown_r :: "nat \<Rightarrow> path \<Rightarrow> int \<Rightarrow> int \<Rightarrow> errno option"
  readdirnames_r :: "nat \<Rightarrow> 64 word \<Rightarrow> errno + string list"
  readlink_r :: "nat \<Rightarrow> path \<Rightarrow> errno + path"
  filepath_Join :: "path \<Rightarrow> path \<Rightarrow> path"
  uid_name :: "32 word \<Rightarrow> string option"
  gid_name :: "32 word \<Rightarrow> string option"

text \<open>A system call is recorded and advances the clock; a printed line is recorded.\<close>

definition tick :: "event \<Rightarrow> world \<Rightarrow> world" where
  "tick e w = w\<lparr>trace := trace w @ [e], clock := Suc (clock w)\<rparr>"

definition print :: "msg \<Rightarrow> world \<Rightarrow> world" where
  "print m w = w\<lparr>trace := trace w @ [EvPrint m]\<rparr>"

definition os_Open :: "os \<Rightarrow> path \<Rightarrow> world \<Rightarrow> (errno + 64 word) \<times> world" where
  "os_Open E p w = (open_r E (clock w) p, tick (EvOpen p) w)"

definition syscall_Stat :: "os \<Rightarrow> path \<Rightarrow> world \<Rightarrow> (errno + stat_t) \<times> world" where
  "syscall_Stat E p w = (sysstat_r E (clock w) p, tick (EvSysStat p) w)"

definition os_Stat :: "os \<Rightarrow> path \<Rightarrow> world \<Rightarrow> (errno + fileinfo) \<times> world" where
  "os_Stat E p w = (osstat_r E (clock w) p, tick (EvOsStat p) w)"

definition os_Lstat :: "os \<Rightarrow> path \<Rightarrow> world \<Rightarrow> (errno + fileinfo) \<times> world" where
  "os_Lstat E p w = (oslstat_r E (clock w) p, tick (EvOsLstat p) w)"

definition syscall_Openat ::
  "os \<Rightarrow> int \<Rightarrow> path \<Rightarrow> access \<Rightarrow> bool \<Rightarrow> world \<Rightarrow> (int \<times> errno option) \<times> world" where
  "syscall_Openat E d p a dir w = (openat_r E (clock w) d p a dir, tick (EvOpenat d p a dir) w)"

definition syscall_Fstat :: "os \<Rightarrow> int \<Rightarrow> world \<Rightarrow> (errno + stat_t) \<times> world" where
  "syscall_Fstat E fd w = (fstat_r E (clock w) fd, tick (EvFstat fd) w)"

definition syscall_Fchown :: "os \<Rightarrow> int \<Rightarrow> int \<Rightarrow> int \<Rightarrow> world \<Rightarrow> errno option \<times> world" where
  "syscall_Fchown E fd u g w = (fchown_r E (clock w) fd u g, tick (EvFchown fd u g) w)"

definition syscall_Close :: "os \<Rightarrow> int \<Rightarrow> world \<Rightarrow> errno option \<times> world" where
  "syscall_Close E fd w = (close_r E (clock w) fd, tick (EvClose fd) w)"

definition os_Lchown :: "os \<Rightarrow> path \<Rightarrow> int \<Rightarrow> int \<Rightarrow> world \<Rightarrow> errno option \<times> world" where
  "os_Lchown E p u g w = (lchown_r E (clock w) p u g, tick (EvLchown p u g) w)"

definition os_Chown :: "os \<Rightarrow> path \<Rightarrow> int \<Rightarrow> int \<Rightarrow> world \<Rightarrow> errno option \<times> world" where
  "os_Chown E p u g w = (chown_r E (clock w) p u g, tick (EvChown p u g) w)"

definition file_Readdirnames :: "os \<Rightarrow> 64 word \<Rightarrow> world \<Rightarrow> (errno + string list) \<times> world" where
  "file_Readdirnames E f w = (readdirnames_r E (clock w) f, tick (EvReaddirnames f) w)"

definition file_Close :: "64 word \<Rightarrow> world \<Rightarrow> world" where
  "file_Close f w = tick (EvFileClose f) w"

text \<open>\<open>os.Readlink\<close> returns the empty string with its error.\<close>

definition os_Readlink :: "os \<Rightarrow> path \<Rightarrow> world \<Rightarrow> path \<times> world" where
  "os_Readlink E p w =
     ((case readlink_r E (clock w) p of Inl e \<Rightarrow> [] | Inr q \<Rightarrow> q), tick (EvReadlink p) w)"

subsection \<open>RestrictedChown (lines 450-508)\<close>

text \<open>The condition of line 489, with Go's precedence: \<open>&&\<close> binds tighter than \<open>||\<close>.\<close>

definition filter_passes :: "int \<Rightarrow> int \<Rightarrow> stat_t \<Rightarrow> bool" where
  "filter_passes reqUid reqGid fstat =
     (reqUid = - 1 \<or> (uint32 reqUid = st_uid fstat \<and> reqGid = - 1) \<or> uint32 reqGid = st_gid fstat)"

text \<open>Lines 485-507: everything after the descriptor \<open>fd\<close> was obtained. A failed
  \<open>Close\<close> at line 503 panics; the status is still 0 there when the filter did not pass.\<close>

definition RestrictedChown_fd ::
  "os \<Rightarrow> int \<Rightarrow> fileinfo option \<Rightarrow> fileinfo \<Rightarrow> int \<Rightarrow> int \<Rightarrow> int \<Rightarrow> int \<Rightarrow> world
   \<Rightarrow> RCStatus res \<times> world" where
  "RestrictedChown_fd E fd origStat fileInfo uid gid reqUid reqGid w0 =
     (let close_and_return = (\<lambda>status w.
            case syscall_Close E fd w of
              (Some e, w') \<Rightarrow> (Panic, w')
            | (None, w') \<Rightarrow> (Normal status, w'))
      in case syscall_Fstat E fd w0 of
           (Inl e, w1) \<Rightarrow> close_and_return RC_ERROR w1
         | (Inr fstat, w1) \<Rightarrow>
             if \<not> SameFile origStat (Some fileInfo) then close_and_return RC_INODE_CHANGED w1
             else if filter_passes reqUid reqGid fstat then
               (case syscall_Fchown E fd uid gid w1 of
                  (None, w2) \<Rightarrow>
                    (case syscall_Close E fd w2 of
                       (None, w3) \<Rightarrow> (Normal RC_OK, w3)
                     | (Some e, w3) \<Rightarrow> (Normal RC_ERROR, w3))
                | (Some err, w2) \<Rightarrow>
                    close_and_return RC_ERROR
                      (if IsPermission err then print (MsgNotPermittedFd fd) w2 else w2))
             else close_and_return RC_ZERO w1)"

text \<open>
  The status that \<open>syscall.Stat\<close> writes at line 456 is never read: \<open>fstat\<close> is read
  at line 489 only, after \<open>Fstat\<close> has overwritten it. When \<open>os.Stat\<close> fails,
  \<open>fileInfo\<close> is nil and \<open>fileInfo.Mode()\<close> at line 459 panics. The flag given to
  \<open>Openat\<close> is \<open>O_DIRECTORY\<close>, set for a directory (lines 465-467).
\<close>

definition RestrictedChown ::
  "os \<Rightarrow> int \<Rightarrow> path \<Rightarrow> fileinfo option \<Rightarrow> int \<Rightarrow> int \<Rightarrow> int \<Rightarrow> int \<Rightarrow> world
   \<Rightarrow> RCStatus res \<times> world" where
  "RestrictedChown E cwd_fd file origStat uid gid reqUid reqGid w0 =
     (let w1 = snd (syscall_Stat E file w0) in
      (case os_Stat E file w1 of
        (Inl e, w2) \<Rightarrow> (Panic, w2)
      | (Inr fileInfo, w2) \<Rightarrow>
          (let fileMode = fi_mode fileInfo in
           if reqUid = - 1 \<and> reqGid = - 1 then (Normal RC_DO_ORDINARY_CHOWN, w2)
           else if \<not> IsRegular fileMode \<and> \<not> IsDir fileMode then (Normal RC_DO_ORDINARY_CHOWN, w2)
           else
             (let directory = \<not> IsRegular fileMode in
              (case syscall_Openat E cwd_fd file O_RDONLY directory w2 of ((fd, errno), w3) \<Rightarrow>
                 if \<not> (0 \<le> fd \<or> (errno \<noteq> None \<and> IsRegular fileMode)) then
                   (case syscall_Openat E cwd_fd file O_WRONLY directory w3 of ((fd', err), w4) \<Rightarrow>
                      if \<not> (0 \<le> fd') then
                        (if err \<noteq> None then (Normal RC_DO_ORDINARY_CHOWN, w4)
                         else (Normal RC_ERROR, w4))
                      else RestrictedChown_fd E fd' origStat fileInfo uid gid reqUid reqGid w4)
                 else RestrictedChown_fd E fd origStat fileInfo uid gid reqUid reqGid w3)))))"

subsection \<open>The flags and the name lookups\<close>

text \<open>
  The command-line flags and the globals \<open>optUid\<close>, \<open>optGid\<close> (lines 132-163) are fixed
  for a run: the record \<open>config\<close>. \<open>mute\<close> is initialised from the flags' defaults
  before the command line is parsed, so it is false in every run of the program; the
  model keeps it as a field.
\<close>

record config =
  changes :: bool
  deref :: bool
  recursive :: bool
  pr :: bool
  verbose :: bool
  travAll :: bool
  mute :: bool
  optUid :: int
  optGid :: int

datatype lookup_error = CantFind

text \<open>Lines 183-197.\<close>

definition gidToName :: "os \<Rightarrow> 32 word \<Rightarrow> string \<times> lookup_error option" where
  "gidToName E gid = (case gid_name E gid of None \<Rightarrow> ([], Some CantFind) | Some n \<Rightarrow> (n, None))"

definition uidToName :: "os \<Rightarrow> 32 word \<Rightarrow> string \<times> lookup_error option" where
  "uidToName E uid = (case uid_name E uid of None \<Rightarrow> ([], Some CantFind) | Some n \<Rightarrow> (n, None))"

subsection \<open>DescribeChange (lines 510-579)\<close>

text \<open>\<open>fmt.Sprintf("'%s:%s'", a, b)\<close>; a nil argument is printed by \<open>%s\<close> as below.
  The parameters \<open>user\<close> and \<open>group\<close> of the source are \<open>usr\<close> and \<open>grp\<close> here.\<close>

definition sprintf_spec :: "string \<Rightarrow> string \<Rightarrow> string" where
  "sprintf_spec a b = [CHR 0x27] @ a @ '':'' @ b @ [CHR 0x27]"

definition nil_str :: string where
  "nil_str = ''%!s(<nil>)''"

definition DescribeChange ::
  "path \<Rightarrow> CHStatus \<Rightarrow> string \<Rightarrow> string \<Rightarrow> string \<Rightarrow> string \<Rightarrow> world \<Rightarrow> unit res \<times> world" where
  "DescribeChange file changed olduser oldgroup usr grp w0 =
     (let userbool = (usr \<noteq> []);
          groupbool = (grp \<noteq> []);
          w1 = (if changed = CH_NOT_APPLIED then print (MsgNeither file) w0 else w0);
          spec = sprintf_spec usr grp;
          oldspec = (if userbool then
                       (if groupbool then sprintf_spec olduser oldgroup
                        else sprintf_spec olduser nil_str)
                     else if groupbool then sprintf_spec nil_str oldgroup
                     else [])
      in case changed of
           CH_SUCCEEDED \<Rightarrow>
             (Normal (),
              if userbool then print (MsgChangedOwnership file oldspec spec) w1
              else if groupbool then print (MsgChangedGroup file oldspec spec) w1
              else print (MsgNoChangeIn file) w1)
         | CH_FAILED \<Rightarrow>
             (Normal (),
              if oldspec \<noteq> [] then
                (if userbool then print (MsgFailedOwnership file oldspec spec) w1
                 else if groupbool then print (MsgFailedGroup file oldspec spec) w1
                 else print (MsgFailedPlain file) w1)
              else
                (if userbool then print (MsgFailedOwnership file oldspec spec) w1
                 else if groupbool then print (MsgFailedGroup file oldspec spec) w1
                 else print (MsgFailedPlain file) w1))
         | CH_NO_CHANGE_REQUESTED \<Rightarrow>
             (Normal (),
              if userbool then print (MsgRetainedAs file oldspec) w1
              else if groupbool then print (MsgRetainedAs file oldspec) w1
              else print (MsgRetained file) w1)
         | _ \<Rightarrow> (Panic, w1))"

subsection \<open>ChangeOwner (lines 301-448)\<close>

text \<open>Lines 382-421: the switch on the status of RestrictedChown. It is entered with
  \<open>doChown\<close> and \<open>ok\<close> both true and yields their new values.\<close>

definition ChangeOwner_switch ::
  "config \<Rightarrow> os \<Rightarrow> path \<Rightarrow> int \<Rightarrow> int \<Rightarrow> RCStatus \<Rightarrow> world \<Rightarrow> (bool \<times> bool) res \<times> world" where
  "ChangeOwner_switch C E fname uid gid status w0 =
     (case status of
        RC_OK \<Rightarrow> (Normal (True, True), w0)
      | RC_DO_ORDINARY_CHOWN \<Rightarrow>
          (if \<not> deref C then
             (case os_Lchown E fname uid gid w0 of
                (Some err, w1) \<Rightarrow>
                  (Normal (True, False),
                   if IsPermission err \<and> \<not> mute C then print (MsgNotPermitted fname) w1 else w1)
              | (None, w1) \<Rightarrow> (Normal (True, True), w1))
           else
             (case os_Chown E fname uid gid w0 of
                (Some err, w1) \<Rightarrow>
                  (Normal (True, False),
                   if IsPermission err \<and> \<not> mute C then print (MsgNotPermitted fname) w1 else w1)
              | (None, w1) \<Rightarrow> (Normal (True, True), w1)))
      | RC_ERROR \<Rightarrow> (Normal (True, False), w0)
      | RC_INODE_CHANGED \<Rightarrow> (Normal (False, False), print (MsgInodeChanged fname) w0)
      | RC_EXCLUDED \<Rightarrow> (Normal (False, False), w0)
      | RC_ZERO \<Rightarrow> (Panic, w0))"

text \<open>Line 426, the classification of lines 428-436, and the call of line 443.\<close>

definition change_made :: "int \<Rightarrow> int \<Rightarrow> stat_t \<Rightarrow> bool \<Rightarrow> bool \<Rightarrow> bool \<Rightarrow> bool" where
  "change_made uid gid stat doChown ok symlinkChanged =
     (doChown \<and> ok \<and> ((symlinkChanged \<and> uid \<noteq> - 1) \<or> uint32 uid = st_uid stat)
      \<and> (gid \<noteq> - 1 \<or> uint32 gid = st_gid stat))"

definition classify :: "bool \<Rightarrow> bool \<Rightarrow> bool \<Rightarrow> CHStatus" where
  "classify ok symlinkChanged changed =
     (if \<not> ok then CH_FAILED
      else if \<not> symlinkChanged then CH_NOT_APPLIED
      else if \<not> changed then CH_NO_CHANGE_REQUESTED
      else CH_SUCCEEDED)"

text \<open>Lines 425-447: the report and the return value.\<close>

definition ChangeOwner_report ::
  "config \<Rightarrow> os \<Rightarrow> path \<Rightarrow> int \<Rightarrow> int \<Rightarrow> stat_t \<Rightarrow> bool \<Rightarrow> bool \<Rightarrow> bool \<Rightarrow> world
   \<Rightarrow> bool res \<times> world" where
  "ChangeOwner_report C E fname uid gid stat doChown ok symlinkChanged w0 =
     (if (\<not> mute C \<and> verbose C) \<or> changes C then
        (let changed = change_made uid gid stat doChown ok symlinkChanged in
         if changed \<or> verbose C then
           (let changeStatus = classify ok symlinkChanged changed;
                oldUsr = fst (uidToName E (st_uid stat));
                oldGroup = fst (gidToName E (st_gid stat));
                newUsr = fst (uidToName E (uint32 (optUid C)));
                newGrp = fst (gidToName E (uint32 (optGid C)))
            in case DescribeChange fname changeStatus oldUsr oldGroup newUsr newGrp w0 of
                 (Panic, w1) \<Rightarrow> (Panic, w1)
               | (Normal u, w1) \<Rightarrow> (Normal ok, w1))
         else (Normal ok, w0))
      else (Normal ok, w0))"

text \<open>The test of line 331.\<close>

definition is_root :: "stat_t \<Rightarrow> bool" where
  "is_root stat = (st_mode stat AND ModeDir \<noteq> 0 \<and> st_ino stat = ROOT_INODE)"

text \<open>
  \<open>fi\<close> is the file that \<open>os.Open\<close> returned, here its descriptor \<open>fi.Fd()\<close>; line 376
  panics unless it fits an \<open>int\<close>. \<open>doChown\<close> is true only when the file was opened, so
  the nil file is never asked for its descriptor (Go would answer with the all-ones word,
  and line 379 would panic).
\<close>

definition ChangeOwner ::
  "config \<Rightarrow> os \<Rightarrow> path \<Rightarrow> fileinfo option \<Rightarrow> int \<Rightarrow> int \<Rightarrow> int \<Rightarrow> int \<Rightarrow> world
   \<Rightarrow> bool res \<times> world" where
  "ChangeOwner C E fname origStat uid gid reqUid reqGid w0 =
     (case os_Open E fname w0 of (fi, w1) \<Rightarrow>
      (let ok1 = (case fi of Inl err \<Rightarrow> False | Inr f \<Rightarrow> True);
           w2 = (case fi of Inl err \<Rightarrow> (if \<not> mute C then print (MsgErr err fname) w1 else w1)
                 | Inr f \<Rightarrow> w1)
       in case syscall_Stat E fname w2 of (r, w3) \<Rightarrow>
         (let stat = (case r of Inl err \<Rightarrow> zero_stat | Inr s \<Rightarrow> s);
              ok2 = (case r of Inl err \<Rightarrow> False | Inr s \<Rightarrow> ok1);
              w4 = (case r of Inl err \<Rightarrow> (if \<not> mute C then print (MsgErr err fname) w3 else w3)
                    | Inr s \<Rightarrow> w3)
          in if is_root stat \<and> recursive C \<and> pr C then
               (Normal False, (print MsgRootRefused w4)\<lparr>DO_NOT_FOLLOW := True\<rparr>)
             else
               (let w5 = (if is_root stat then print MsgRootWarning w4 else w4);
                    doChown = ok2
                in if doChown then
                     (if \<not> deref C then
                        (case os_Lchown E fname uid gid w5 of
                           (Some err, w6) \<Rightarrow>
                             ChangeOwner_report C E fname uid gid stat doChown True False w6
                         | (None, w6) \<Rightarrow>
                             ChangeOwner_report C E fname uid gid stat doChown ok2 True w6)
                      else
                        (case fi of
                           Inl err \<Rightarrow> (Panic, w5)
                         | Inr f \<Rightarrow>
                             if f \<le> word_of_int MAX_INT then
                               (case RestrictedChown E (sint f) fname origStat uid gid reqUid reqGid w5 of
                                  (Panic, w6) \<Rightarrow> (Panic, w6)
                                | (Normal status, w6) \<Rightarrow>
                                    (case ChangeOwner_switch C E fname uid gid status w6 of
                                       (Panic, w7) \<Rightarrow> (Panic, w7)
                                     | (Normal (doChown', ok'), w7) \<Rightarrow>
                                         ChangeOwner_report C E fname uid gid stat doChown' ok' True w7))
                             else (Panic, w5)))
                   else ChangeOwner_report C E fname uid gid stat doChown ok2 True w5))))"

subsection \<open>readDirNames, walk and ChownFiles (lines 199-299)\<close>

text \<open>\<open>sort.Strings\<close> sorts by bytes, increasing: \<open>sort\<close> on the lexicographic order of
  \<open>char list\<close>.\<close>

definition readDirNames :: "os \<Rightarrow> path \<Rightarrow> world \<Rightarrow> (errno + string list) \<times> world" where
  "readDirNames E dirname w0 =
     (case os_Open E dirname w0 of
        (Inl err, w1) \<Rightarrow> (Inl err, w1)
      | (Inr f, w1) \<Rightarrow>
          (case file_Readdirnames E f w1 of (r, w2) \<Rightarrow>
             (let w3 = file_Close f w2
              in case r of Inl err \<Rightarrow> (Inl err, w3) | Inr names \<Rightarrow> (Inr (sort names), w3))))"

text \<open>
  The chain of conditions of lines 230-239 chooses one of four branches: to follow the
  child as a link (line 230), the regular file seen as a link (line 233), the directory
  (line 235) and everything else (line 237).
\<close>

datatype branch = BrFollowLink | BrSymlinkRegular | BrDirectory | BrOther

definition dispatch :: "config \<Rightarrow> bool \<Rightarrow> 32 word \<Rightarrow> branch" where
  "dispatch C symlnk m =
     (if symlnk \<and> travAll C \<and> IsDir m then BrFollowLink
      else if symlnk \<and> IsRegular m then BrSymlinkRegular
      else if IsDir m then BrDirectory
      else BrOther)"

text \<open>
  \<open>walk\<close> recurses as deep as the tree the operating system shows, which need not be
  finite: the first argument bounds the depth of the recursion, and \<open>None\<close> is "deeper than
  that". \<open>walk_loop\<close> is the loop of lines 213-241 over the names still to visit and
  \<open>walk_child\<close> its body (lines 214-240); the loop's state is \<open>ok\<close> and \<open>sym\<close>
  (here \<open>symlnk\<close>). In the branch without dereference line 217 calls \<open>fileInfo.Mode()\<close>
  before the error is looked at, which panics on the nil that a failed \<open>os.Lstat\<close> returns.
\<close>

function walk ::
  "nat \<Rightarrow> config \<Rightarrow> os \<Rightarrow> path \<Rightarrow> fileinfo option \<Rightarrow> int \<Rightarrow> int \<Rightarrow> int \<Rightarrow> int \<Rightarrow> world
   \<Rightarrow> (bool res \<times> world) option"
and walk_loop ::
  "nat \<Rightarrow> config \<Rightarrow> os \<Rightarrow> path \<Rightarrow> string list \<Rightarrow> int \<Rightarrow> int \<Rightarrow> int \<Rightarrow> int \<Rightarrow> bool \<Rightarrow> bool \<Rightarrow> world
   \<Rightarrow> ((bool \<times> bool) res \<times> world) option"
and walk_child ::
  "nat \<Rightarrow> config \<Rightarrow> os \<Rightarrow> path \<Rightarrow> string \<Rightarrow> int \<Rightarrow> int \<Rightarrow> int \<Rightarrow> int \<Rightarrow> bool \<Rightarrow> bool \<Rightarrow> world
   \<Rightarrow> ((bool \<times> bool) res \<times> world) option"
where
  "walk 0 C E path info uid gid reqUid reqGid w0 = None"
| "walk (Suc n) C E path info uid gid reqUid reqGid w0 =
     (case ChangeOwner C E path info uid gid reqUid reqGid w0 of
        (Panic, w1) \<Rightarrow> Some (Panic, w1)
      | (Normal ok, w1) \<Rightarrow>
          (case readDirNames E path w1 of
             (Inl err, w2) \<Rightarrow> Some (Normal False, w2)
           | (Inr names, w2) \<Rightarrow>
               (case walk_loop n C E path names uid gid reqUid reqGid ok False w2 of
                  None \<Rightarrow> None
                | Some (Panic, w3) \<Rightarrow> Some (Panic, w3)
                | Some (Normal (ok', sym'), w3) \<Rightarrow> Some (Normal ok', w3))))"
| "walk_loop n C E path [] uid gid reqUid reqGid ok symlnk w0 = Some (Normal (ok, symlnk), w0)"
| "walk_loop n C E path (name # names) uid gid reqUid reqGid ok symlnk w0 =
     (case walk_child n C E path name uid gid reqUid reqGid ok symlnk w0 of
        None \<Rightarrow> None
      | Some (Panic, w1) \<Rightarrow> Some (Panic, w1)
      | Some (Normal (ok', sym'), w1) \<Rightarrow>
          walk_loop n C E path names uid gid reqUid reqGid ok' sym' w1)"
| "walk_child n C E path name uid gid reqUid reqGid ok symlnk w0 =
     (let filename = filepath_Join E path name
      in case (if \<not> deref C then os_Lstat E filename w0 else os_Stat E filename w0) of
           (Inl err, w1) \<Rightarrow>
             (if \<not> deref C then Some (Panic, w1) else Some (Normal (False, symlnk), w1))
         | (Inr fileInfo, w1) \<Rightarrow>
             (let sym1 = (if \<not> deref C \<and> fi_mode fileInfo AND ModeSymlink = ModeSymlink
                          then True else symlnk);
                  r = (case dispatch C sym1 (fi_mode fileInfo) of
                         BrFollowLink \<Rightarrow>
                           (case os_Readlink E filename w1 of (filename', w2) \<Rightarrow>
                              walk n C E filename' (Some fileInfo) uid gid reqUid reqGid w2)
                       | BrSymlinkRegular \<Rightarrow>
                           Some (ChangeOwner C E filename (Some fileInfo) uid gid reqUid reqGid w1)
                       | BrDirectory \<Rightarrow>
                           walk n C E filename (Some fileInfo) uid gid reqUid reqGid w1
                       | BrOther \<Rightarrow>
                           Some (ChangeOwner C E filename (Some fileInfo) uid gid reqUid reqGid w1))
              in case r of
                   None \<Rightarrow> None
                 | Some (Panic, w3) \<Rightarrow> Some (Panic, w3)
                 | Some (Normal ok', w3) \<Rightarrow> Some (Normal (ok', sym1), w3)))"
  by pat_completeness auto
termination
  by (relation "inv_image (less_than <*lex*> less_than <*lex*> less_than)
        (\<lambda>x. case x of
           Inl (n, r) \<Rightarrow> (n, 0, 0)
         | Inr (Inl (n, C, E, path, names, r)) \<Rightarrow> (n, 2, length names)
         | Inr (Inr (n, r)) \<Rightarrow> (n, 1, 0))")
     auto

text \<open>Lines 261-299. The two branches differ in the call that observes the entry and in
  the message.\<close>

definition ChownFiles ::
  "nat \<Rightarrow> config \<Rightarrow> os \<Rightarrow> path \<Rightarrow> int \<Rightarrow> int \<Rightarrow> int \<Rightarrow> int \<Rightarrow> world \<Rightarrow> (bool res \<times> world) option" where
  "ChownFiles n C E fname uid gid reqUid reqGid w0 =
     (case (if \<not> deref C then os_Lstat E fname w0 else os_Stat E fname w0) of (r, w1) \<Rightarrow>
        (let fi = (case r of Inl err \<Rightarrow> None | Inr i \<Rightarrow> Some i);
             w2 = (case r of
                     Inl err \<Rightarrow>
                       (if \<not> mute C then
                          print (if \<not> deref C then MsgCannotLstat fname else MsgCannotStat fname) w1
                        else w1)
                   | Inr i \<Rightarrow> w1)
         in if recursive C then walk n C E fname fi uid gid reqUid reqGid w2
            else Some (ChangeOwner C E fname fi uid gid reqUid reqGid w2)))"

section \<open>Reading the specification and the traces\<close>

text \<open>
  The ownership filter as the specification words it (section 4.1, \<open>matches\<close>): every
  field that is present must equal the current value, an absent field (\<open>-1\<close>) asks for
  nothing.
\<close>

definition matches :: "int \<Rightarrow> int \<Rightarrow> 32 word \<Rightarrow> 32 word \<Rightarrow> bool" where
  "matches requiredOwner requiredGroup currentOwner currentGroup =
     ((requiredOwner = - 1 \<or> uint32 requiredOwner = currentOwner) \<and>
      (requiredGroup = - 1 \<or> uint32 requiredGroup = currentGroup))"

text \<open>The call by which \<open>walk\<close> observes a child, the answer to it, and the system
  calls of a trace (the printed lines left out).\<close>

definition observe :: "config \<Rightarrow> path \<Rightarrow> event" where
  "observe C p = (if \<not> deref C then EvOsLstat p else EvOsStat p)"


definition syscalls_of :: "event list \<Rightarrow> event list" where
  "syscalls_of tr = filter (\<lambda>e. case e of EvPrint m \<Rightarrow> False | _ \<Rightarrow> True) tr"



text \<open>The lines that report a change that failed.\<close>

definition is_failed_msg :: "msg \<Rightarrow> bool" where
  "is_failed_msg m =
     (case m of MsgFailedOwnership f old new \<Rightarrow> True | MsgFailedGroup f old new \<Rightarrow> True
      | MsgFailedPlain f \<Rightarrow> True | _ \<Rightarrow> False)"


section \<open>Concrete operating systems\<close>

text \<open>
  Small worlds on which the program is run below. \<open>E_none\<close> has no file at all; the
  others change the answers they need. \<open>join_simple\<close> is \<open>filepath.Join\<close> on a clean
  directory path and a plain name. Modes are written in hexadecimal: \<open>0x1A4\<close> is a regular
  file \<open>0644\<close>, \<open>0x800001ED\<close> a directory \<open>0755\<close> and \<open>0x080001FF\<close> a symbolic link as
  \<open>os.FileMode\<close>; \<open>0x81A4\<close> and \<open>0x41ED\<close> are the \<open>st_mode\<close> of a regular file and of
  a directory.
\<close>

definition join_simple :: "path \<Rightarrow> path \<Rightarrow> path" where
  "join_simple p n = (if p = ''/'' then p @ n else p @ ''/'' @ n)"

definition E_none :: os where
  "E_none = \<lparr>open_r = (\<lambda>t p. Inl ENOENT), sysstat_r = (\<lambda>t p. Inl ENOENT),
     osstat_r = (\<lambda>t p. Inl ENOENT), oslstat_r = (\<lambda>t p. Inl ENOENT),
     openat_r = (\<lambda>t d p a dir. (- 1, Some ENOENT)),
     fstat_r = (\<lambda>t fd. Inl EBADF),
     fchown_r = (\<lambda>t fd u g. Some EBADF), close_r = (\<lambda>t fd. Some EBADF),
     lchown_r = (\<lambda>t p u g. Some ENOENT), chown_r = (\<lambda>t p u g. Some ENOENT),
     readdirnames_r = (\<lambda>t f. Inl ENOTDIR), readlink_r = (\<lambda>t p. Inl EINVAL),
     filepath_Join = join_simple, uid_name = (\<lambda>u. None), gid_name = (\<lambda>g. None)\<rparr>"

definition C_default :: config where
  "C_default = \<lparr>changes = False, deref = True, recursive = False, pr = False, verbose = False,
     travAll = False, mute = False, optUid = 1000, optGid = - 1\<rparr>"

definition C_recursive :: config where
  "C_recursive = C_default\<lparr>recursive := True, travAll := True\<rparr>"

definition fileinfo_of :: "32 word \<Rightarrow> 64 word \<Rightarrow> fileinfo" where
  "fileinfo_of m ino = \<lparr>fi_mode = m, fi_dev = 1, fi_ino = ino\<rparr>"

definition stat_of :: "32 word \<Rightarrow> 64 word \<Rightarrow> 32 word \<Rightarrow> 32 word \<Rightarrow> stat_t" where
  "stat_of m ino u g = \<lparr>st_dev = 1, st_ino = ino, st_mode = m, st_uid = u, st_gid = g\<rparr>"

definition regular_10 :: fileinfo where
  "regular_10 = fileinfo_of 0x1A4 10"

definition E_swapped :: os where
  "E_swapped = E_none\<lparr>
     osstat_r := (\<lambda>t p. Inr regular_10),
     openat_r := (\<lambda>t d p a dir. (5, None)),
     fstat_r := (\<lambda>t fd. Inr (stat_of 0x81A4 99 0 0)),
     fchown_r := (\<lambda>t fd u g. None),
     close_r := (\<lambda>t fd. None)\<rparr>"

definition E_group7 :: os where
  "E_group7 = E_swapped\<lparr>fstat_r := (\<lambda>t fd. Inr (stat_of 0x81A4 10 500 7))\<rparr>"

definition E_rdonly_denied :: os where
  "E_rdonly_denied = E_none\<lparr>
     osstat_r := (\<lambda>t p. Inr regular_10),
     openat_r := (\<lambda>t d p a dir. if a = O_RDONLY then (- 1, Some EACCES) else (5, None)),
     fstat_r := (\<lambda>t fd. if fd = 5 then Inr (stat_of 0x81A4 10 0 0) else Inl EBADF),
     fchown_r := (\<lambda>t fd u g. if fd = 5 then None else Some EBADF),
     close_r := (\<lambda>t fd. if fd = 5 then None else Some EBADF)\<rparr>"

definition E_dir_unopenable :: os where
  "E_dir_unopenable = E_rdonly_denied\<lparr>
     osstat_r := (\<lambda>t p. Inr (fileinfo_of 0x800001ED 20)),
     openat_r := (\<lambda>t d p a dir. (- 1, Some ENOENT))\<rparr>"

definition E_plain :: os where
  "E_plain = E_none\<lparr>
     open_r := (\<lambda>t p. Inr 3),
     sysstat_r := (\<lambda>t p. Inr (stat_of 0x81A4 10 0 0)),
     osstat_r := (\<lambda>t p. Inr regular_10),
     chown_r := (\<lambda>t p u g. None),
     lchown_r := (\<lambda>t p u g. None),
     uid_name := (\<lambda>u. if u = 0 then Some ''root'' else if u = 1000 then Some ''alice'' else None)\<rparr>"

definition E_unreadable :: os where
  "E_unreadable = E_plain\<lparr>open_r := (\<lambda>t p. Inl EACCES)\<rparr>"

definition E_lchown_denied :: os where
  "E_lchown_denied = E_plain\<lparr>lchown_r := (\<lambda>t p u g. Some EPERM)\<rparr>"

definition E_close_fails :: os where
  "E_close_fails = E_plain\<lparr>
     openat_r := (\<lambda>t d p a dir. (5, None)),
     fstat_r := (\<lambda>t fd. Inr (stat_of 0x81A4 10 0 0)),
     fchown_r := (\<lambda>t fd u g. None),
     close_r := (\<lambda>t fd. Some EIO)\<rparr>"

definition E_fchown_fails :: os where
  "E_fchown_fails = E_close_fails\<lparr>
     fchown_r := (\<lambda>t fd u g. Some EIO),
     close_r := (\<lambda>t fd. None)\<rparr>"

definition E_root_tree :: "32 word \<Rightarrow> os" where
  "E_root_tree root_mode = E_none\<lparr>
     open_r := (\<lambda>t p. if p = ''/'' then Inr 3 else Inr 4),
     sysstat_r := (\<lambda>t p. if p = ''/'' then Inr (stat_of root_mode 2 0 0)
                           else Inr (stat_of 0x81A4 10 0 0)),
     osstat_r := (\<lambda>t p. if p = ''/'' then Inr (fileinfo_of 0x800001ED 2) else Inr regular_10),
     chown_r := (\<lambda>t p u g. None),
     readdirnames_r := (\<lambda>t f. if f = 3 then Inr [''a''] else Inl ENOTDIR)\<rparr>"

definition C_preserve_root :: config where
  "C_preserve_root = C_recursive\<lparr>pr := True\<rparr>"

definition E_tree :: os where
  "E_tree = E_none\<lparr>
     open_r := (\<lambda>t p. if p = ''/d'' then Inr 3 else if p = ''/d/c'' then Inr 5 else Inr 4),
     sysstat_r := (\<lambda>t p. if p = ''/d'' then Inr (stat_of 0x41ED 20 0 0)
                           else if p = ''/d/c'' then Inr (stat_of 0x41ED 30 0 0)
                           else Inr (stat_of 0x81A4 10 0 0)),
     osstat_r := (\<lambda>t p. if p = ''/d'' then Inr (fileinfo_of 0x800001ED 20)
                          else if p = ''/d/c'' then Inr (fileinfo_of 0x800001ED 30)
                          else Inr regular_10),
     chown_r := (\<lambda>t p u g. None),
     readdirnames_r := (\<lambda>t f. if f = 3 then Inr [''b.txt'', ''c'', ''a.txt'']
                                else if f = 5 then Inr [''z.txt''] else Inl ENOTDIR)\<rparr>"

definition E_tree_denied :: os where
  "E_tree_denied = E_tree\<lparr>chown_r := (\<lambda>t p u g. if p = ''/d/a.txt'' then Some EPERM else None)\<rparr>"

definition E_links :: os where
  "E_links = E_none\<lparr>
     open_r := (\<lambda>t p. if p = [] then Inl ENOENT else if p = ''/d/b'' then Inr 6 else Inr 4),
     sysstat_r := (\<lambda>t p. if p = [] then Inl ENOENT
                           else if p = ''/d/b'' then Inr (stat_of 0x41ED 12 0 0)
                           else Inr (stat_of 0x81A4 10 0 0)),
     oslstat_r := (\<lambda>t p. if p = ''/d/a'' then Inr (fileinfo_of 0x080001FF 11)
                           else if p = ''/d/b'' then Inr (fileinfo_of 0x800001ED 12)
                           else Inl ENOENT),
     lchown_r := (\<lambda>t p u g. None),
     readdirnames_r := (\<lambda>t f. if f = 6 then Inr [] else Inl ENOTDIR)\<rparr>"

definition C_links :: config where
  "C_links = C_recursive\<lparr>deref := False\<rparr>"

definition C_links_noL :: config where
  "C_links_noL = C_links\<lparr>travAll := False\<rparr>"






definition W_links_a :: world where
  "W_links_a = \<lparr>trace =
      [EvOsLstat ''/d/a'', EvOpen ''/d/a'', EvSysStat ''/d/a'', EvLchown ''/d/a'' 1000 (- 1)],
      clock = 4, DO_NOT_FOLLOW = False\<rparr>"

definition W_links_end :: world where
  "W_links_end = \<lparr>trace =
      [EvOsLstat ''/d/a'', EvOpen ''/d/a'', EvSysStat ''/d/a'',
       EvLchown ''/d/a'' 1000 (- 1), EvOsLstat ''/d/b'',
       EvReadlink ''/d/b'', EvOpen [], EvPrint (MsgErr ENOENT []),
       EvSysStat [], EvPrint (MsgErr ENOENT []), EvOpen []],
      clock = 9, DO_NOT_FOLLOW = False\<rparr>"

section \<open>Facts about the model\<close>

subsection \<open>Unfolding\<close>

lemmas sys_defs = os_Open_def syscall_Stat_def os_Stat_def os_Lstat_def syscall_Openat_def
  syscall_Fstat_def syscall_Fchown_def syscall_Close_def os_Lchown_def os_Chown_def
  file_Readdirnames_def file_Close_def os_Readlink_def

lemmas mode_defs = IsDir_def IsRegular_def os_ModeType_def ModeDir_def ModeSymlink_def
  ModeDevice_def ModeNamedPipe_def ModeSocket_def ModeCharDevice_def ModeIrregular_def

lemmas run_defs = RestrictedChown_def RestrictedChown_fd_def ChangeOwner_def ChangeOwner_switch_def
  ChangeOwner_report_def DescribeChange_def readDirNames_def ChownFiles_def
  change_made_def classify_def is_root_def SameFile_def filter_passes_def uint32_def
  IsPermission_def MAX_INT_def ROOT_INODE_def zero_stat_def uidToName_def gidToName_def
  sprintf_spec_def nil_str_def world0_def sys_defs tick_def print_def dispatch_def Let_def

lemmas env_defs = E_none_def C_default_def C_recursive_def regular_10_def fileinfo_of_def
  stat_of_def join_simple_def

subsection \<open>Every step only extends the trace\<close>

lemma trace_tick [simp]: "trace (tick e w) = trace w @ [e]"
  by (simp add: tick_def)

lemma clock_tick [simp]: "clock (tick e w) = Suc (clock w)"
  by (simp add: tick_def)

lemma trace_print [simp]: "trace (print m w) = trace w @ [EvPrint m]"
  by (simp add: print_def)

lemma clock_print [simp]: "clock (print m w) = clock w"
  by (simp add: print_def)

lemma DescribeChange_prefix:
  "DescribeChange file changed olduser oldgroup usr grp w = (r, w') \<Longrightarrow> prefix (trace w) (trace w')"
  by (cases changed) (auto simp: DescribeChange_def Let_def split: if_splits)

lemma ChangeOwner_report_prefix:
  "ChangeOwner_report C E fname uid gid stat doChown ok sc w = (r, w') \<Longrightarrow> prefix (trace w) (trace w')"
  by (auto simp: ChangeOwner_report_def Let_def split: if_splits prod.splits res.splits
      dest: DescribeChange_prefix)

lemma ChangeOwner_switch_prefix:
  "ChangeOwner_switch C E fname uid gid status w = (r, w') \<Longrightarrow> prefix (trace w) (trace w')"
  by (cases status)
     (auto simp: ChangeOwner_switch_def sys_defs split: if_splits prod.splits option.splits)

lemma RestrictedChown_fd_prefix:
  "RestrictedChown_fd E fd origStat fileInfo uid gid reqUid reqGid w = (r, w') \<Longrightarrow>
   prefix (trace w) (trace w')"
  by (auto simp: RestrictedChown_fd_def sys_defs Let_def
      split: if_splits prod.splits option.splits sum.splits)

lemma RestrictedChown_prefix:
  "RestrictedChown E cwd_fd file origStat uid gid reqUid reqGid w = (r, w') \<Longrightarrow>
   prefix (trace w) (trace w')"
  by (auto simp: RestrictedChown_def sys_defs Let_def
      split: if_splits prod.splits option.splits sum.splits
      dest!: RestrictedChown_fd_prefix dest: append_prefixD)

lemma ChangeOwner_opens_first:
  "ChangeOwner C E fname origStat uid gid reqUid reqGid w = (r, w') \<Longrightarrow>
   prefix (trace w @ [EvOpen fname]) (trace w')"
  apply (auto simp: ChangeOwner_def sys_defs Let_def
      split: if_splits prod.splits option.splits sum.splits res.splits
      dest!: RestrictedChown_prefix ChangeOwner_switch_prefix ChangeOwner_report_prefix)
  apply (auto simp: prefix_def)
  done

lemma ChangeOwner_prefix:
  "ChangeOwner C E fname origStat uid gid reqUid reqGid w = (r, w') \<Longrightarrow>
   prefix (trace w) (trace w')"
  by (drule ChangeOwner_opens_first) (rule append_prefixD)

lemma readDirNames_prefix:
  "readDirNames E dirname w = (r, w') \<Longrightarrow> prefix (trace w) (trace w')"
  by (auto simp: readDirNames_def sys_defs Let_def split: prod.splits sum.splits)

lemma walk_child_observes_aux:
  assumes rec: "\<And>p i v t v'. walk n C E p i uid gid reqUid reqGid v = Some (t, v') \<Longrightarrow>
                  prefix (trace v) (trace v')"
    and run: "walk_child n C E path name uid gid reqUid reqGid ok s w = Some (r, w')"
  shows "prefix (trace w @ [observe C (filepath_Join E path name)]) (trace w')"
  using run
  apply (simp add: Let_def sys_defs observe_def
      split: if_splits sum.splits option.splits prod.splits res.splits branch.splits)
  apply (auto simp: prefix_def dest!: rec ChangeOwner_prefix)
  done

lemma walk_loop_prefix_aux:
  assumes rec: "\<And>p i v t v'. walk n C E p i uid gid reqUid reqGid v = Some (t, v') \<Longrightarrow>
                  prefix (trace v) (trace v')"
  shows "walk_loop n C E path names uid gid reqUid reqGid ok s w = Some (r, w') \<Longrightarrow>
         prefix (trace w) (trace w')"
proof (induction names arbitrary: ok s w)
  case Nil
  then show ?case by simp
next
  case (Cons name names)
  from Cons.prems obtain r1 w1 where
    one: "walk_child n C E path name uid gid reqUid reqGid ok s w = Some (r1, w1)"
    by (auto split: option.splits)
  have p1: "prefix (trace w) (trace w1)"
    using walk_child_observes_aux [OF rec one] by (rule append_prefixD)
  show ?case
  proof (cases r1)
    case Panic
    then show ?thesis using Cons.prems one p1 by simp
  next
    case (Normal a)
    then obtain ok1 s1 where a: "r1 = Normal (ok1, s1)" by (cases a) auto
    with Cons.prems one have
      "walk_loop n C E path names uid gid reqUid reqGid ok1 s1 w1 = Some (r, w')"
      by simp
    then have "prefix (trace w1) (trace w')" by (rule Cons.IH)
    with p1 show ?thesis by (meson prefix_order.trans)
  qed
qed

lemma walk_prefix:
  "walk n C E p i uid gid reqUid reqGid w = Some (r, w') \<Longrightarrow> prefix (trace w) (trace w')"
proof (induction n arbitrary: p i w r w')
  case 0
  then show ?case by simp
next
  case (Suc n)
  obtain r0 w0 where co: "ChangeOwner C E p i uid gid reqUid reqGid w = (r0, w0)"
    by (cases "ChangeOwner C E p i uid gid reqUid reqGid w") auto
  obtain d w1 where rd: "readDirNames E p w0 = (d, w1)"
    by (cases "readDirNames E p w0") auto
  have p0: "prefix (trace w) (trace w0)"
    using co by (rule ChangeOwner_prefix)
  have p1: "prefix (trace w0) (trace w1)"
    using rd by (rule readDirNames_prefix)
  show ?case
  proof (cases r0)
    case Panic
    then show ?thesis using Suc.prems co p0 by simp
  next
    case (Normal ok0)
    show ?thesis
    proof (cases d)
      case (Inl e)
      then show ?thesis
        using Suc.prems co rd Normal p0 p1 by auto
    next
      case (Inr names)
      from Suc.prems co rd Normal Inr obtain r2 where
        lp: "walk_loop n C E p names uid gid reqUid reqGid ok0 False w1 = Some (r2, w')"
        by (auto split: option.splits res.splits prod.splits)
      have "prefix (trace w1) (trace w')"
      proof (rule walk_loop_prefix_aux [where r = r2])
        show "walk_loop n C E p names uid gid reqUid reqGid ok0 False w1 = Some (r2, w')"
          by (rule lp)
      next
        fix q j v t v'
        assume "walk n C E q j uid gid reqUid reqGid v = Some (t, v')"
        then show "prefix (trace v) (trace v')" by (rule Suc.IH)
      qed
      with p0 p1 show ?thesis by (meson prefix_order.trans)
    qed
  qed
qed

lemma walk_loop_append:
  "walk_loop n C E path (xs @ ys) uid gid reqUid reqGid ok s w =
     (case walk_loop n C E path xs uid gid reqUid reqGid ok s w of
        None \<Rightarrow> None
      | Some (Panic, w1) \<Rightarrow> Some (Panic, w1)
      | Some (Normal (ok1, s1), w1) \<Rightarrow> walk_loop n C E path ys uid gid reqUid reqGid ok1 s1 w1)"
proof (induction xs arbitrary: ok s w)
  case Nil
  then show ?case by simp
next
  case (Cons x xs)
  show ?case
    by (simp add: Cons.IH del: walk_child.simps split: prod.splits option.splits res.splits)
qed

subsection \<open>The visits of the loop\<close>





subsection \<open>A walk of a well-founded tree returns\<close>




subsection \<open>More fuel does not change a walk that returned\<close>





subsection \<open>The tree \<open>/d\<close> is well-founded\<close>




subsection \<open>The report after a change that went through\<close>

lemma DescribeChange_classified:
  "DescribeChange file (classify ok True ch) olduser oldgroup usr grp w = (r, w') \<Longrightarrow>
   r = Normal () \<and> (\<exists>m. trace w' = trace w @ [EvPrint m]) \<and> clock w' = clock w"
  by (auto simp: DescribeChange_def classify_def Let_def split: if_splits)

lemma ChangeOwner_report_plain:
  "ChangeOwner_report C E fname uid gid stat doChown ok True w = (r, w') \<Longrightarrow>
   r = Normal ok \<and> (\<exists>ms. trace w' = trace w @ ms \<and> syscalls_of ms = []) \<and> clock w' = clock w"
  by (auto simp: ChangeOwner_report_def Let_def syscalls_of_def
      split: if_splits prod.splits res.splits dest!: DescribeChange_classified)

lemma DescribeChange_prints_only:
  "DescribeChange file changed olduser oldgroup usr grp w = (r, w') \<Longrightarrow>
   \<exists>ms. trace w' = trace w @ ms \<and> syscalls_of ms = []"
  by (cases changed) (auto simp: DescribeChange_def Let_def syscalls_of_def split: if_splits)

lemma ChangeOwner_report_prints_only:
  "ChangeOwner_report C E fname uid gid stat doChown ok sc w = (r, w') \<Longrightarrow>
   \<exists>ms. trace w' = trace w @ ms \<and> syscalls_of ms = []"
  by (auto simp: ChangeOwner_report_def Let_def syscalls_of_def
      split: if_splits prod.splits res.splits dest!: DescribeChange_prints_only)

lemma ChangeOwner_no_dereference:
  assumes nd: "\<not> deref C" and op: "open_r E (clock w) fname = Inr f"
    and st: "sysstat_r E (clock w + 1) fname = Inr st"
    and nr: "\<not> (is_root st \<and> recursive C \<and> pr C)"
  shows "\<exists>r w' new. ChangeOwner C E fname origStat uid gid reqUid reqGid w = (r, w') \<and>
           (lchown_r E (clock w + 2) fname uid gid = None \<longrightarrow> r = Normal True) \<and>
           trace w' = trace w @ new \<and>
           syscalls_of new = [EvOpen fname, EvSysStat fname, EvLchown fname uid gid]"
proof -
  define w5 where "w5 = (if is_root st then print MsgRootWarning (tick (EvSysStat fname) (tick (EvOpen fname) w))
     else tick (EvSysStat fname) (tick (EvOpen fname) w))"
  define w6 where "w6 = tick (EvLchown fname uid gid) w5"
  define err where "err = lchown_r E (clock w + 2) fname uid gid"
  have c5: "clock w5 = clock w + 2"
    by (simp add: w5_def)
  obtain r w' where rp: "ChangeOwner_report C E fname uid gid st True True (err = None) w6 = (r, w')"
    by (cases "ChangeOwner_report C E fname uid gid st True True (err = None) w6") auto
  have co: "ChangeOwner C E fname origStat uid gid reqUid reqGid w = (r, w')"
    using nd op st nr rp c5
    by (cases "is_root st"; cases err)
       (auto simp add: ChangeOwner_def sys_defs Let_def w5_def w6_def err_def eval_nat_numeral)
  have ok: "err = None \<longrightarrow> r = Normal True"
    using ChangeOwner_report_plain [of C E fname uid gid st True True w6 r w'] rp by auto
  from ChangeOwner_report_prints_only [OF rp] obtain ms where
    ms: "trace w' = trace w6 @ ms" "syscalls_of ms = []"
    by blast
  have "\<exists>new. trace w6 = trace w @ new \<and> syscalls_of new
      = [EvOpen fname, EvSysStat fname, EvLchown fname uid gid]"
    by (simp add: w6_def w5_def syscalls_of_def)
  then obtain new where "trace w6 = trace w @ new" "syscalls_of new
      = [EvOpen fname, EvSysStat fname, EvLchown fname uid gid]"
    by blast
  with ms have "trace w' = trace w @ (new @ ms) \<and> syscalls_of (new @ ms)
      = [EvOpen fname, EvSysStat fname, EvLchown fname uid gid]"
    by (simp add: syscalls_of_def)
  with co ok have "ChangeOwner C E fname origStat uid gid reqUid reqGid w = (r, w') \<and>
           (lchown_r E (clock w + 2) fname uid gid = None \<longrightarrow> r = Normal True) \<and>
           trace w' = trace w @ (new @ ms) \<and>
           syscalls_of (new @ ms) = [EvOpen fname, EvSysStat fname, EvLchown fname uid gid]"
    unfolding err_def by (intro conjI) simp_all
  then show ?thesis
    by (intro exI)
qed

subsection \<open>The report after a change that failed\<close>

lemma DescribeChange_failed:
  "\<exists>m. is_failed_msg m \<and> DescribeChange file CH_FAILED olduser oldgroup usr grp w = (Normal (), print m w)"
proof -
  have f: "is_failed_msg (MsgFailedOwnership a b c)" "is_failed_msg (MsgFailedGroup a b c)"
    "is_failed_msg (MsgFailedPlain a)" for a b c
    by (simp_all add: is_failed_msg_def)
  show ?thesis
    by (cases "usr = []"; cases "grp = []")
       (auto simp: DescribeChange_def Let_def intro: f)
qed

lemma ChangeOwner_report_failed:
  "\<exists>v'. ChangeOwner_report C E fname uid gid stat doChown False sc v = (Normal False, v') \<and>
         (if verbose C \<and> (\<not> mute C \<or> changes C) then \<exists>m. is_failed_msg m \<and> v' = print m v
          else v' = v)"
proof -
  let ?ou = "fst (uidToName E (st_uid stat))" and ?og = "fst (gidToName E (st_gid stat))"
  let ?nu = "fst (uidToName E (uint32 (optUid C)))" and ?ng = "fst (gidToName E (uint32 (optGid C)))"
  from DescribeChange_failed [of fname ?ou ?og ?nu ?ng v] obtain m where
    m: "is_failed_msg m" "DescribeChange fname CH_FAILED ?ou ?og ?nu ?ng v = (Normal (), print m v)"
    by blast
  show ?thesis
  proof (cases "verbose C \<and> (\<not> mute C \<or> changes C)")
    case True
    with m have "ChangeOwner_report C E fname uid gid stat doChown False sc v = (Normal False, print m v)"
      by (auto simp: ChangeOwner_report_def Let_def classify_def change_made_def)
    with True m(1) show ?thesis by auto
  next
    case False
    then have "ChangeOwner_report C E fname uid gid stat doChown False sc v = (Normal False, v)"
      by (auto simp: ChangeOwner_report_def Let_def classify_def change_made_def)
    with False show ?thesis by auto
  qed
qed

lemma ChangeOwner_after_RC_ERROR:
  assumes d: "deref C" and op: "open_r E (clock v) fname = Inr f" and fd: "f \<le> word_of_int MAX_INT"
    and st: "sysstat_r E (clock v + 1) fname = Inr stt"
    and nr: "\<not> is_root stt"
    and rc: "RestrictedChown E (sint f) fname origStat uid gid reqUid reqGid
               (tick (EvSysStat fname) (tick (EvOpen fname) v)) = (Normal RC_ERROR, v6)"
  shows "\<exists>v'. ChangeOwner C E fname origStat uid gid reqUid reqGid v = (Normal False, v') \<and>
           (if verbose C \<and> (\<not> mute C \<or> changes C) then \<exists>m. is_failed_msg m \<and> v' = print m v6
            else v' = v6)"
proof -
  have "ChangeOwner C E fname origStat uid gid reqUid reqGid v
      = ChangeOwner_report C E fname uid gid stt True False True v6"
    using d op fd st nr rc
    by (simp add: ChangeOwner_def ChangeOwner_switch_def os_Open_def syscall_Stat_def Let_def)
  with ChangeOwner_report_failed [of C E fname uid gid stt True True v6] show ?thesis
    by simp
qed

subsection \<open>The symlink flag of the loop\<close>

lemma walk_child_keeps_flag:
  "walk_child n C E path name uid gid reqUid reqGid ok True w = Some (Normal (ok', s'), w') \<Longrightarrow> s'"
  by (auto simp: Let_def
      split: if_splits sum.splits option.splits prod.splits res.splits branch.splits)

lemma walk_loop_keeps_flag:
  "walk_loop n C E path names uid gid reqUid reqGid ok True w = Some (Normal (ok', s'), w') \<Longrightarrow> s'"
proof (induction names arbitrary: ok w)
  case Nil
  then show ?case by simp
next
  case (Cons x xs)
  from Cons.prems obtain ok1 s1 w1 where
    one: "walk_child n C E path x uid gid reqUid reqGid ok True w = Some (Normal (ok1, s1), w1)" and
    more: "walk_loop n C E path xs uid gid reqUid reqGid ok1 s1 w1 = Some (Normal (ok', s'), w')"
    by (auto simp del: walk_child.simps split: option.splits res.splits prod.splits)
  from walk_child_keeps_flag [OF one] have s1 by simp
  with more Cons.IH show ?case by simp
qed

lemma walk_child_sets_flag:
  "\<not> deref C \<Longrightarrow> oslstat_r E (clock w) (filepath_Join E path name) = Inr fi \<Longrightarrow>
   fi_mode fi AND ModeSymlink = ModeSymlink \<Longrightarrow>
   walk_child n C E path name uid gid reqUid reqGid ok s w = Some (Normal (ok', s'), w') \<Longrightarrow> s'"
  by (auto simp: Let_def sys_defs
      split: if_splits sum.splits option.splits prod.splits res.splits branch.splits)

lemma walk_child_follows:
  assumes "\<not> deref C" "travAll C"
    and "oslstat_r E (clock w) (filepath_Join E path name) = Inr fi" "IsDir (fi_mode fi)"
    and "walk_child n C E path name uid gid reqUid reqGid ok True w = Some (r, w')"
  shows "prefix (trace w @ [EvOsLstat (filepath_Join E path name),
                           EvReadlink (filepath_Join E path name)]) (trace w')"
  using assms
  by (auto simp: Let_def sys_defs prefix_def dispatch_def
      split: if_splits sum.splits option.splits prod.splits res.splits dest!: walk_prefix)

section \<open>The claims\<close>

text \<open>
  Claim C1. RestrictedChown is to compare the identity of the opened handle with the
  identity seen at scan time, and to change nothing when they differ. The code does stat
  the handle (line 485), but line 487 compares \<open>origStat\<close> with \<open>fileInfo\<close>, the result of
  the path-based \<open>os.Stat\<close> of line 458, taken before the open. In the run below the path
  still shows inode 10 when it is stat'ed and is swapped before the open: the handle is
  inode 99, the status is \<open>RC_OK\<close> and \<open>fchown\<close> was applied to the handle.
\<close>

theorem RestrictedChown_changes_swapped_file:
  "fstat_r E_swapped 3 5 = Inr (stat_of 0x81A4 99 0 0) \<and>
   st_ino (stat_of 0x81A4 99 0 0) \<noteq> fi_ino regular_10 \<and>
   RestrictedChown E_swapped 3 ''/tmp/f'' (Some regular_10) 1000 (- 1) 0 (- 1) world0 =
     (Normal RC_OK,
      \<lparr>trace = [EvSysStat ''/tmp/f'', EvOsStat ''/tmp/f'', EvOpenat 3 ''/tmp/f'' O_RDONLY False,
                  EvFstat 5, EvFchown 5 1000 (- 1), EvClose 5],
       clock = 6, DO_NOT_FOLLOW = False\<rparr>)"
  by (simp add: run_defs env_defs mode_defs E_swapped_def)

text \<open>
  Claim C2. The filter is to be a conjunction per field. Line 489 reads
  \<open>reqUid == -1 || uint32(reqUid) == fstat.Uid && reqGid == -1 || uint32(reqGid) == fstat.Gid\<close>,
  which Go parses as a three-way disjunction. With no required owner and required group 5
  the file of group 7 below does not match the filter of the specification, and yet
  \<open>fchown\<close> is applied.
\<close>

theorem filter_lets_wrong_group_through:
  "fstat_r E_group7 3 5 = Inr (stat_of 0x81A4 10 500 7) \<and>
   \<not> matches (- 1) 5 500 7 \<and>
   RestrictedChown E_group7 3 ''/tmp/f'' (Some regular_10) 1000 (- 1) (- 1) 5 world0 =
     (Normal RC_OK,
      \<lparr>trace = [EvSysStat ''/tmp/f'', EvOsStat ''/tmp/f'', EvOpenat 3 ''/tmp/f'' O_RDONLY False,
                  EvFstat 5, EvFchown 5 1000 (- 1), EvClose 5],
       clock = 6, DO_NOT_FOLLOW = False\<rparr>)"
  by (simp add: run_defs env_defs mode_defs E_swapped_def E_group7_def matches_def)

text \<open>
  Claim C3. With root protection a recursive run is to stop at the root and change nothing
  more. First run: the root directory as Linux reports it (\<open>st_mode = 040755\<close>, inode 2).
  The test of line 331 masks \<open>st_mode\<close> with \<open>os.ModeDir\<close> (bit 31), a bit that is
  not set in this \<open>st_mode\<close>, so the root is not recognised and is changed, and so is
  its child.
  Second run: a status on which the test of line 331 does fire. ChangeOwner prints the
  refusal, sets \<open>DO_NOT_FOLLOW\<close> and returns false, but \<open>walk\<close> never reads the flag: it
  lists the directory, changes the child and returns the child's result, true.
\<close>

theorem preserve_root_does_not_stop_the_walk:
  "ChownFiles (Suc (Suc 0)) C_preserve_root (E_root_tree 0x41ED) ''/'' 1000 (- 1) (- 1) (- 1) world0 =
     Some (Normal True,
      \<lparr>trace = [EvOsStat ''/'', EvOpen ''/'', EvSysStat ''/'', EvSysStat ''/'', EvOsStat ''/'',
                  EvChown ''/'' 1000 (- 1), EvOpen ''/'', EvReaddirnames 3, EvFileClose 3,
                  EvOsStat ''/a'', EvOpen ''/a'', EvSysStat ''/a'', EvSysStat ''/a'',
                  EvOsStat ''/a'', EvChown ''/a'' 1000 (- 1)],
       clock = 15, DO_NOT_FOLLOW = False\<rparr>) \<and>
   ChownFiles (Suc (Suc 0)) C_preserve_root (E_root_tree 0x800001ED) ''/'' 1000 (- 1) (- 1) (- 1) world0 =
     Some (Normal True,
      \<lparr>trace = [EvOsStat ''/'', EvOpen ''/'', EvSysStat ''/'', EvPrint MsgRootRefused,
                  EvOpen ''/'', EvReaddirnames 3, EvFileClose 3,
                  EvOsStat ''/a'', EvOpen ''/a'', EvSysStat ''/a'', EvSysStat ''/a'',
                  EvOsStat ''/a'', EvChown ''/a'' 1000 (- 1)],
       clock = 12, DO_NOT_FOLLOW = True\<rparr>)"
  by (simp add: run_defs env_defs mode_defs E_root_tree_def C_preserve_root_def)

text \<open>
  Claim C4. The result of a recursive run is to be false as soon as one entry failed. In
  \<open>walk\<close> every iteration assigns \<open>ok\<close> anew (lines 232-238), so the result is that of the
  last child. Below the change of \<open>/d/a.txt\<close> is refused by the operating system, the
  later entries succeed, and the run returns true.
\<close>

theorem walk_result_forgets_earlier_failure:
  "chown_r E_tree_denied 14 ''/d/a.txt'' 1000 (- 1) = Some EPERM \<and>
   ChownFiles (Suc (Suc 0)) C_recursive E_tree_denied ''/d'' 1000 (- 1) (- 1) (- 1) world0 =
     Some (Normal True,
      \<lparr>trace = [EvOsStat ''/d'', EvOpen ''/d'', EvSysStat ''/d'', EvSysStat ''/d'',
       EvOsStat ''/d'', EvChown ''/d'' 1000 (- 1), EvOpen ''/d'',
       EvReaddirnames 3, EvFileClose 3, EvOsStat ''/d/a.txt'',
       EvOpen ''/d/a.txt'', EvSysStat ''/d/a.txt'', EvSysStat ''/d/a.txt'',
       EvOsStat ''/d/a.txt'', EvChown ''/d/a.txt'' 1000 (- 1),
       EvPrint (MsgNotPermitted ''/d/a.txt''), EvOsStat ''/d/b.txt'',
       EvOpen ''/d/b.txt'', EvSysStat ''/d/b.txt'', EvSysStat ''/d/b.txt'',
       EvOsStat ''/d/b.txt'', EvChown ''/d/b.txt'' 1000 (- 1),
       EvOsStat ''/d/c'', EvOpen ''/d/c'', EvSysStat ''/d/c'',
       EvSysStat ''/d/c'', EvOsStat ''/d/c'', EvChown ''/d/c'' 1000 (- 1),
       EvOpen ''/d/c'', EvReaddirnames 5, EvFileClose 5,
       EvOsStat ''/d/c/z.txt'', EvOpen ''/d/c/z.txt'',
       EvSysStat ''/d/c/z.txt'', EvSysStat ''/d/c/z.txt'',
       EvOsStat ''/d/c/z.txt'', EvChown ''/d/c/z.txt'' 1000 (- 1)],
       clock = 36, DO_NOT_FOLLOW = False\<rparr>)"
  by (simp add: run_defs env_defs mode_defs E_tree_def E_tree_denied_def)

text \<open>
  Claim C5. With an empty filter (\<open>reqUid\<close> and \<open>reqGid\<close> both \<open>-1\<close>) RestrictedChown
  returns \<open>RC_DO_ORDINARY_CHOWN\<close> without opening a handle (its only calls are the two
  stats of the path), whenever its path-based \<open>os.Stat\<close> succeeds. The caller,
  ChangeOwner, attempts the ordinary path-based change on every entry that it could
  open and stat and that root protection did not refuse, whatever the owner and group
  of the entry. In dereference mode (the descriptor fitting an \<open>int\<close>, and the
  \<open>os.Stat\<close> of RestrictedChown succeeding) its system calls are exactly the five of the
  second part, the last one \<open>os.Chown\<close> on the path, and its result is whether
  \<open>os.Chown\<close> succeeded. Without dereference RestrictedChown is not
  called at all: the system calls are exactly the three of the third part, the last one
  \<open>os.Lchown\<close> on the path.
\<close>

theorem empty_filter_takes_the_ordinary_path:
  assumes empty: "reqUid = - 1" "reqGid = - 1"
  shows "(\<forall>cwd_fd v fi. osstat_r E (Suc (clock v)) fname = Inr fi \<longrightarrow>
            RestrictedChown E cwd_fd fname origStat uid gid reqUid reqGid v
              = (Normal RC_DO_ORDINARY_CHOWN, tick (EvOsStat fname) (tick (EvSysStat fname) v)))
       \<and> (\<forall>f st fi. deref C \<longrightarrow> open_r E (clock w) fname = Inr f \<longrightarrow> f \<le> word_of_int MAX_INT \<longrightarrow>
            sysstat_r E (clock w + 1) fname = Inr st \<longrightarrow> \<not> (is_root st \<and> recursive C \<and> pr C) \<longrightarrow>
            osstat_r E (clock w + 3) fname = Inr fi \<longrightarrow>
            (\<exists>w' new. ChangeOwner C E fname origStat uid gid reqUid reqGid w
                     = (Normal (chown_r E (clock w + 4) fname uid gid = None), w') \<and>
                   trace w' = trace w @ new \<and>
                   syscalls_of new
                     = [EvOpen fname, EvSysStat fname, EvSysStat fname, EvOsStat fname,
                        EvChown fname uid gid]))
       \<and> (\<forall>f st. \<not> deref C \<longrightarrow> open_r E (clock w) fname = Inr f \<longrightarrow>
            sysstat_r E (clock w + 1) fname = Inr st \<longrightarrow> \<not> (is_root st \<and> recursive C \<and> pr C) \<longrightarrow>
            (\<exists>r w' new. ChangeOwner C E fname origStat uid gid reqUid reqGid w = (r, w') \<and>
                   (lchown_r E (clock w + 2) fname uid gid = None \<longrightarrow> r = Normal True) \<and>
                   trace w' = trace w @ new \<and>
                   syscalls_of new = [EvOpen fname, EvSysStat fname, EvLchown fname uid gid]))"
proof (intro conjI allI impI)
  fix cwd_fd and v :: world and fi
  assume "osstat_r E (Suc (clock v)) fname = Inr fi"
  then show "RestrictedChown E cwd_fd fname origStat uid gid reqUid reqGid v
      = (Normal RC_DO_ORDINARY_CHOWN, tick (EvOsStat fname) (tick (EvSysStat fname) v))"
    using empty by (simp add: RestrictedChown_def sys_defs Let_def)
next
  fix f st fi
  assume d: "deref C" and op: "open_r E (clock w) fname = Inr f" and fd: "f \<le> word_of_int MAX_INT"
    and st: "sysstat_r E (clock w + 1) fname = Inr st"
    and nr: "\<not> (is_root st \<and> recursive C \<and> pr C)"
    and os: "osstat_r E (clock w + 3) fname = Inr fi"
  define w5 where "w5 = (if is_root st then print MsgRootWarning (tick (EvSysStat fname) (tick (EvOpen fname) w))
     else tick (EvSysStat fname) (tick (EvOpen fname) w))"
  define w6 where "w6 = tick (EvOsStat fname) (tick (EvSysStat fname) w5)"
  define err where "err = chown_r E (clock w + 4) fname uid gid"
  define w8 where "w8 = (case err of None \<Rightarrow> tick (EvChown fname uid gid) w6
     | Some e \<Rightarrow> if IsPermission e \<and> \<not> mute C then print (MsgNotPermitted fname) (tick (EvChown fname uid gid) w6)
                 else tick (EvChown fname uid gid) w6)"
  have c5: "clock w5 = clock w + 2"
    by (simp add: w5_def)
  have c6: "clock w6 = clock w + 4"
    by (simp add: w6_def c5)
  have rc: "RestrictedChown E (sint f) fname origStat uid gid reqUid reqGid w5
      = (Normal RC_DO_ORDINARY_CHOWN, w6)"
    using empty os c5 by (simp add: RestrictedChown_def sys_defs Let_def w6_def eval_nat_numeral)
  have sw: "ChangeOwner_switch C E fname uid gid RC_DO_ORDINARY_CHOWN w6 = (Normal (True, err = None), w8)"
    using d c6 by (auto simp: ChangeOwner_switch_def sys_defs w8_def err_def split: option.splits)
  obtain r' w' where rp: "ChangeOwner_report C E fname uid gid st True (err = None) True w8 = (r', w')"
    by (cases "ChangeOwner_report C E fname uid gid st True (err = None) True w8") auto
  from ChangeOwner_report_plain [OF rp] obtain ms where
    r': "r' = Normal (err = None)" and ms: "trace w' = trace w8 @ ms" "syscalls_of ms = []"
    by blast
  have co: "ChangeOwner C E fname origStat uid gid reqUid reqGid w = (Normal (err = None), w')"
    using d op fd st nr rc sw rp r'
    by (cases "is_root st") (auto simp add: ChangeOwner_def sys_defs Let_def w5_def)
  have "\<exists>new. trace w8 = trace w @ new \<and> syscalls_of new
      = [EvOpen fname, EvSysStat fname, EvSysStat fname, EvOsStat fname, EvChown fname uid gid]"
    by (simp add: w8_def w6_def w5_def syscalls_of_def split: option.splits)
  then obtain new where "trace w8 = trace w @ new" "syscalls_of new
      = [EvOpen fname, EvSysStat fname, EvSysStat fname, EvOsStat fname, EvChown fname uid gid]"
    by blast
  with ms have "trace w' = trace w @ (new @ ms) \<and> syscalls_of (new @ ms)
      = [EvOpen fname, EvSysStat fname, EvSysStat fname, EvOsStat fname, EvChown fname uid gid]"
    by (simp add: syscalls_of_def)
  with co show "\<exists>w' new. ChangeOwner C E fname origStat uid gid reqUid reqGid w
        = (Normal (chown_r E (clock w + 4) fname uid gid = None), w') \<and>
      trace w' = trace w @ new \<and>
      syscalls_of new
        = [EvOpen fname, EvSysStat fname, EvSysStat fname, EvOsStat fname, EvChown fname uid gid]"
    unfolding err_def by blast
next
  fix f st
  assume "\<not> deref C" "open_r E (clock w) fname = Inr f" "sysstat_r E (clock w + 1) fname = Inr st"
    "\<not> (is_root st \<and> recursive C \<and> pr C)"
  then show "\<exists>r w' new. ChangeOwner C E fname origStat uid gid reqUid reqGid w = (r, w') \<and>
      (lchown_r E (clock w + 2) fname uid gid = None \<longrightarrow> r = Normal True) \<and>
      trace w' = trace w @ new \<and>
      syscalls_of new = [EvOpen fname, EvSysStat fname, EvLchown fname uid gid]"
    by (rule ChangeOwner_no_dereference)
qed

text \<open>The theorem on a plain regular file, in either mode.\<close>

theorem empty_filter_takes_the_ordinary_path_witness:
  "RestrictedChown E_plain 3 ''/tmp/f'' (Some regular_10) 1000 (- 1) (- 1) (- 1) world0
     = (Normal RC_DO_ORDINARY_CHOWN, tick (EvOsStat ''/tmp/f'') (tick (EvSysStat ''/tmp/f'') world0)) \<and>
   (\<exists>w' new. ChangeOwner C_default E_plain ''/tmp/f'' (Some regular_10) 1000 (- 1) (- 1) (- 1) world0
        = (Normal True, w') \<and>
      trace w' = new \<and>
      syscalls_of new = [EvOpen ''/tmp/f'', EvSysStat ''/tmp/f'', EvSysStat ''/tmp/f'',
                         EvOsStat ''/tmp/f'', EvChown ''/tmp/f'' 1000 (- 1)]) \<and>
   (\<exists>w' new. ChangeOwner (C_default\<lparr>deref := False\<rparr>) E_plain ''/tmp/f'' (Some regular_10)
          1000 (- 1) (- 1) (- 1) world0
        = (Normal True, w') \<and>
      trace w' = new \<and>
      syscalls_of new = [EvOpen ''/tmp/f'', EvSysStat ''/tmp/f'', EvLchown ''/tmp/f'' 1000 (- 1)])"
proof -
  have e: "(- 1 :: int) = - 1" by simp
  note t = empty_filter_takes_the_ordinary_path [OF e e, where E = E_plain and fname = "''/tmp/f''"
      and origStat = "Some regular_10" and uid = 1000 and gid = "- 1" and C = C_default
      and w = world0]
  note t' = empty_filter_takes_the_ordinary_path [OF e e, where E = E_plain and fname = "''/tmp/f''"
      and origStat = "Some regular_10" and uid = 1000 and gid = "- 1"
      and C = "C_default\<lparr>deref := False\<rparr>" and w = world0]
  have a: "osstat_r E_plain (Suc (clock world0)) ''/tmp/f'' = Inr regular_10"
    by (simp add: E_plain_def E_none_def)
  have b: "deref C_default" "open_r E_plain (clock world0) ''/tmp/f'' = Inr 3"
    "(3 :: 64 word) \<le> word_of_int MAX_INT"
    "sysstat_r E_plain (clock world0 + 1) ''/tmp/f'' = Inr (stat_of 0x81A4 10 0 0)"
    "\<not> (is_root (stat_of 0x81A4 10 0 0) \<and> recursive C_default \<and> pr C_default)"
    "osstat_r E_plain (clock world0 + 3) ''/tmp/f'' = Inr regular_10"
    by (simp_all add: E_plain_def E_none_def C_default_def MAX_INT_def)
  have b': "\<not> deref (C_default\<lparr>deref := False\<rparr>)" "open_r E_plain (clock world0) ''/tmp/f'' = Inr 3"
    "sysstat_r E_plain (clock world0 + 1) ''/tmp/f'' = Inr (stat_of 0x81A4 10 0 0)"
    "\<not> (is_root (stat_of 0x81A4 10 0 0) \<and> recursive (C_default\<lparr>deref := False\<rparr>)
        \<and> pr (C_default\<lparr>deref := False\<rparr>))"
    by (simp_all add: E_plain_def E_none_def C_default_def)
  have c: "chown_r E_plain t ''/tmp/f'' 1000 (- 1) = None"
    and c': "lchown_r E_plain t ''/tmp/f'' 1000 (- 1) = None" for t
    by (simp_all add: E_plain_def E_none_def)
  have tw: "trace world0 = []"
    by (simp add: world0_def)
  from t [THEN conjunct1, rule_format, OF a, of 3]
  have 1: "RestrictedChown E_plain 3 ''/tmp/f'' (Some regular_10) 1000 (- 1) (- 1) (- 1) world0
     = (Normal RC_DO_ORDINARY_CHOWN, tick (EvOsStat ''/tmp/f'') (tick (EvSysStat ''/tmp/f'') world0))" .
  from t [THEN conjunct2, THEN conjunct1, rule_format, OF b]
  have 2: "\<exists>w' new. ChangeOwner C_default E_plain ''/tmp/f'' (Some regular_10) 1000 (- 1) (- 1) (- 1) world0
        = (Normal True, w') \<and>
      trace w' = new \<and>
      syscalls_of new = [EvOpen ''/tmp/f'', EvSysStat ''/tmp/f'', EvSysStat ''/tmp/f'',
                         EvOsStat ''/tmp/f'', EvChown ''/tmp/f'' 1000 (- 1)]"
    by (simp add: c tw)
  from t' [THEN conjunct2, THEN conjunct2, rule_format, OF b']
  have 3: "\<exists>w' new. ChangeOwner (C_default\<lparr>deref := False\<rparr>) E_plain ''/tmp/f'' (Some regular_10)
          1000 (- 1) (- 1) (- 1) world0
        = (Normal True, w') \<and>
      trace w' = new \<and>
      syscalls_of new = [EvOpen ''/tmp/f'', EvSysStat ''/tmp/f'', EvLchown ''/tmp/f'' 1000 (- 1)]"
    by (auto simp add: c' tw)
  show ?thesis
    by (intro conjI 1 2 3)
qed

text \<open>
  Without the provisos the statement fails. ChangeOwner opens every entry before
  anything else (line 310), and an entry it cannot open for reading is reported and left
  alone in either mode, with no ownership change attempted (the first two runs). So is
  an entry on which \<open>syscall.Stat\<close> fails after it was opened (the third run). And when
  the \<open>os.Stat\<close> of RestrictedChown fails, line 459 panics before any change (the last
  run).
\<close>

theorem ordinary_change_is_not_always_attempted:
  "ChangeOwner C_default E_unreadable ''/tmp/f'' (Some regular_10) 1000 (- 1) (- 1) (- 1) world0 =
     (Normal False,
      \<lparr>trace = [EvOpen ''/tmp/f'', EvPrint (MsgErr EACCES ''/tmp/f''), EvSysStat ''/tmp/f''],
       clock = 2, DO_NOT_FOLLOW = False\<rparr>) \<and>
   ChangeOwner (C_default\<lparr>deref := False\<rparr>) E_unreadable ''/tmp/f'' (Some regular_10)
       1000 (- 1) (- 1) (- 1) world0 =
     (Normal False,
      \<lparr>trace = [EvOpen ''/tmp/f'', EvPrint (MsgErr EACCES ''/tmp/f''), EvSysStat ''/tmp/f''],
       clock = 2, DO_NOT_FOLLOW = False\<rparr>) \<and>
   ChangeOwner C_default (E_plain\<lparr>sysstat_r := (\<lambda>t p. Inl ENOENT)\<rparr>) ''/tmp/f'' (Some regular_10)
       1000 (- 1) (- 1) (- 1) world0 =
     (Normal False,
      \<lparr>trace = [EvOpen ''/tmp/f'', EvSysStat ''/tmp/f'', EvPrint (MsgErr ENOENT ''/tmp/f'')],
       clock = 2, DO_NOT_FOLLOW = False\<rparr>) \<and>
   ChangeOwner C_default (E_plain\<lparr>osstat_r := (\<lambda>t p. Inl ENOENT)\<rparr>) ''/tmp/f'' (Some regular_10)
       1000 (- 1) (- 1) (- 1) world0 =
     (Panic,
      \<lparr>trace = [EvOpen ''/tmp/f'', EvSysStat ''/tmp/f'', EvSysStat ''/tmp/f'', EvOsStat ''/tmp/f''],
       clock = 4, DO_NOT_FOLLOW = False\<rparr>)"
  by (simp add: run_defs env_defs mode_defs E_plain_def E_unreadable_def)

text \<open>
  Claim C6. A read-only open of a regular file that fails for lack of permission is to be
  retried write-only. The condition of line 475 reads \<open>!(0 <= fd || errno != nil &&
  fileMode.IsRegular())\<close>: the retry is made when the first open failed and the file is
  not a regular file. First run: a regular file, the read-only open fails with EACCES, and a
  write-only open would succeed; no second open is made, \<open>Fstat\<close> and \<open>Close\<close> are
  called on \<open>-1\<close>, and the failed \<open>Close\<close> panics. Second run: a directory whose open
  fails with ENOENT is retried write-only.
\<close>

theorem no_write_only_retry_for_regular_file:
  "RestrictedChown E_rdonly_denied 3 ''/tmp/f'' (Some regular_10) 1000 (- 1) 0 (- 1) world0 =
     (Panic,
      \<lparr>trace = [EvSysStat ''/tmp/f'', EvOsStat ''/tmp/f'', EvOpenat 3 ''/tmp/f'' O_RDONLY False,
                  EvFstat (- 1), EvClose (- 1)],
       clock = 5, DO_NOT_FOLLOW = False\<rparr>) \<and>
   RestrictedChown E_dir_unopenable 3 ''/tmp/d'' (Some (fileinfo_of 0x800001ED 20)) 1000 (- 1) 0 (- 1) world0 =
     (Normal RC_DO_ORDINARY_CHOWN,
      \<lparr>trace = [EvSysStat ''/tmp/d'', EvOsStat ''/tmp/d'', EvOpenat 3 ''/tmp/d'' O_RDONLY True,
                  EvOpenat 3 ''/tmp/d'' O_WRONLY True],
       clock = 4, DO_NOT_FOLLOW = False\<rparr>)"
  by (simp add: run_defs env_defs mode_defs E_rdonly_denied_def E_dir_unopenable_def)

text \<open>
  Claim C7. Of the failures of \<open>lchown\<close> only "operation not supported" is to count as
  not applied; a permission failure is to fail the entry with the "not permitted" message.
  Lines 349-356 treat every error alike: \<open>ok = true\<close> and \<open>symlinkChanged = false\<close>.
  Below \<open>lchown\<close> fails with EPERM; the entry's result is true and nothing is printed, and
  with \<open>--verbose\<close> the entry is classified \<open>CH_NOT_APPLIED\<close>, for which DescribeChange
  prints its line and then panics (the switch of line 540 has no such case).
\<close>

theorem lchown_permission_failure_counts_as_success:
  "lchown_r E_lchown_denied 2 ''/tmp/f'' 1000 (- 1) = Some EPERM \<and> IsPermission EPERM \<and>
   ChangeOwner (C_default\<lparr>deref := False\<rparr>) E_lchown_denied ''/tmp/f'' (Some regular_10)
       1000 (- 1) (- 1) (- 1) world0 =
     (Normal True,
      \<lparr>trace = [EvOpen ''/tmp/f'', EvSysStat ''/tmp/f'', EvLchown ''/tmp/f'' 1000 (- 1)],
       clock = 3, DO_NOT_FOLLOW = False\<rparr>) \<and>
   ChangeOwner (C_default\<lparr>deref := False, verbose := True\<rparr>) E_lchown_denied ''/tmp/f''
       (Some regular_10) 1000 (- 1) (- 1) (- 1) world0 =
     (Panic,
      \<lparr>trace = [EvOpen ''/tmp/f'', EvSysStat ''/tmp/f'', EvLchown ''/tmp/f'' 1000 (- 1),
                  EvPrint (MsgNeither ''/tmp/f'')],
       clock = 3, DO_NOT_FOLLOW = False\<rparr>)"
  by (simp add: run_defs env_defs mode_defs E_plain_def E_lchown_denied_def)

text \<open>
  Claim C8. When \<open>fchown\<close> succeeds and the \<open>close\<close> that follows fails, RestrictedChown
  returns \<open>RC_ERROR\<close> (line 494). This is the status it also returns when \<open>fchown\<close>
  itself fails and the handle is closed after it (lines 496-507): the second part.
  ChangeOwner turns \<open>RC_ERROR\<close> into \<open>ok = false\<close> (line 412), so the failure is not
  dropped: the result for the entry is false. The report classifies an entry with
  \<open>ok = false\<close> as \<open>CH_FAILED\<close> and prints the line of a failed change, and it does so
  exactly when \<open>verbose\<close> is set and \<open>mute\<close> is not, or \<open>changes\<close> is (lines 425-426);
  otherwise nothing is printed. The last part puts this together for ChangeOwner in
  dereference mode, on an entry that is not the root: whenever RestrictedChown returns
  \<open>RC_ERROR\<close>, the result is false and the only thing added to what RestrictedChown left
  is that line.
\<close>

theorem close_failure_is_reported_as_RC_ERROR:
  assumes "fstat_r E (clock w) fd = Inr st"
    and "SameFile origStat (Some fileInfo)"
    and "filter_passes reqUid reqGid st"
    and "fchown_r E (clock w + 1) fd uid gid = None"
    and "close_r E (clock w + 2) fd = Some e"
  shows "RestrictedChown_fd E fd origStat fileInfo uid gid reqUid reqGid w
           = (Normal RC_ERROR, tick (EvClose fd) (tick (EvFchown fd uid gid) (tick (EvFstat fd) w)))
       \<and> (\<forall>(E' :: os) e'. fstat_r E' (clock w) fd = Inr st \<longrightarrow> fchown_r E' (clock w + 1) fd uid gid = Some e' \<longrightarrow>
             close_r E' (clock w + 2) fd = None \<longrightarrow>
             fst (RestrictedChown_fd E' fd origStat fileInfo uid gid reqUid reqGid w) = Normal RC_ERROR)
       \<and> (\<forall>v. ChangeOwner_switch C E fname uid gid RC_ERROR v = (Normal (True, False), v))
       \<and> (\<forall>symlinkChanged changed. classify False symlinkChanged changed = CH_FAILED)
       \<and> (\<forall>stat v. \<exists>v'. ChangeOwner_report C E fname uid gid stat True False True v = (Normal False, v') \<and>
             (if verbose C \<and> (\<not> mute C \<or> changes C) then \<exists>m. is_failed_msg m \<and> v' = print m v
              else v' = v))
       \<and> (\<forall>f stt orig v v6. deref C \<longrightarrow> open_r E (clock v) fname = Inr f \<longrightarrow> f \<le> word_of_int MAX_INT \<longrightarrow>
             sysstat_r E (clock v + 1) fname = Inr stt \<longrightarrow> \<not> is_root stt \<longrightarrow>
             RestrictedChown E (sint f) fname orig uid gid reqUid reqGid
               (tick (EvSysStat fname) (tick (EvOpen fname) v)) = (Normal RC_ERROR, v6) \<longrightarrow>
             (\<exists>v'. ChangeOwner C E fname orig uid gid reqUid reqGid v = (Normal False, v') \<and>
                (if verbose C \<and> (\<not> mute C \<or> changes C) then \<exists>m. is_failed_msg m \<and> v' = print m v6
                 else v' = v6)))"
proof (intro conjI allI impI)
  show "RestrictedChown_fd E fd origStat fileInfo uid gid reqUid reqGid w
           = (Normal RC_ERROR, tick (EvClose fd) (tick (EvFchown fd uid gid) (tick (EvFstat fd) w)))"
    using assms by (simp add: RestrictedChown_fd_def sys_defs Let_def)
next
  fix E' :: os and e'
  assume "fstat_r E' (clock w) fd = Inr st" "fchown_r E' (clock w + 1) fd uid gid = Some e'"
    "close_r E' (clock w + 2) fd = None"
  then show "fst (RestrictedChown_fd E' fd origStat fileInfo uid gid reqUid reqGid w) = Normal RC_ERROR"
    using assms(2,3) by (simp add: RestrictedChown_fd_def sys_defs Let_def)
next
  fix v
  show "ChangeOwner_switch C E fname uid gid RC_ERROR v = (Normal (True, False), v)"
    by (simp add: ChangeOwner_switch_def)
next
  fix symlinkChanged changed
  show "classify False symlinkChanged changed = CH_FAILED"
    by (simp add: classify_def)
next
  fix stat v
  show "\<exists>v'. ChangeOwner_report C E fname uid gid stat True False True v = (Normal False, v') \<and>
             (if verbose C \<and> (\<not> mute C \<or> changes C) then \<exists>m. is_failed_msg m \<and> v' = print m v
              else v' = v)"
    by (rule ChangeOwner_report_failed)
next
  fix f stt orig v v6
  assume "deref C" "open_r E (clock v) fname = Inr f" "f \<le> word_of_int MAX_INT"
    "sysstat_r E (clock v + 1) fname = Inr stt" "\<not> is_root stt"
    "RestrictedChown E (sint f) fname orig uid gid reqUid reqGid
               (tick (EvSysStat fname) (tick (EvOpen fname) v)) = (Normal RC_ERROR, v6)"
  then show "\<exists>v'. ChangeOwner C E fname orig uid gid reqUid reqGid v = (Normal False, v') \<and>
                (if verbose C \<and> (\<not> mute C \<or> changes C) then \<exists>m. is_failed_msg m \<and> v' = print m v6
                 else v' = v6)"
    by (rule ChangeOwner_after_RC_ERROR)
qed

text \<open>The theorem on a file whose descriptor fails to close, under \<open>--verbose\<close>; the second
  part on a file on which \<open>fchown\<close> fails.\<close>

theorem close_failure_is_reported_as_RC_ERROR_witness:
  "RestrictedChown_fd E_close_fails 5 (Some regular_10) regular_10 1000 (- 1) 0 (- 1) world0
     = (Normal RC_ERROR, tick (EvClose 5) (tick (EvFchown 5 1000 (- 1)) (tick (EvFstat 5) world0))) \<and>
   fst (RestrictedChown_fd E_fchown_fails 5 (Some regular_10) regular_10 1000 (- 1) 0 (- 1) world0)
     = Normal RC_ERROR \<and>
   (\<forall>v. ChangeOwner_switch (C_default\<lparr>verbose := True\<rparr>) E_close_fails ''/tmp/f'' 1000 (- 1) RC_ERROR v
          = (Normal (True, False), v)) \<and>
   (\<forall>symlinkChanged changed. classify False symlinkChanged changed = CH_FAILED) \<and>
   (\<forall>stat v. \<exists>m. is_failed_msg m \<and>
      ChangeOwner_report (C_default\<lparr>verbose := True\<rparr>) E_close_fails ''/tmp/f'' 1000 (- 1) stat
        True False True v = (Normal False, print m v)) \<and>
   (\<exists>m. is_failed_msg m \<and>
      ChangeOwner (C_default\<lparr>verbose := True\<rparr>) E_close_fails ''/tmp/f'' (Some regular_10)
        1000 (- 1) 0 (- 1) world0 =
      (Normal False, print m
        \<lparr>trace = [EvOpen ''/tmp/f'', EvSysStat ''/tmp/f'', EvSysStat ''/tmp/f'', EvOsStat ''/tmp/f'',
                  EvOpenat 3 ''/tmp/f'' O_RDONLY False, EvFstat 5, EvFchown 5 1000 (- 1), EvClose 5],
         clock = 8, DO_NOT_FOLLOW = False\<rparr>))"
proof -
  let ?C = "C_default\<lparr>verbose := True\<rparr>"
  let ?W = "\<lparr>trace = [EvOpen ''/tmp/f'', EvSysStat ''/tmp/f'', EvSysStat ''/tmp/f'', EvOsStat ''/tmp/f'',
                  EvOpenat 3 ''/tmp/f'' O_RDONLY False, EvFstat 5, EvFchown 5 1000 (- 1), EvClose 5],
         clock = 8, DO_NOT_FOLLOW = False\<rparr>"
  have h: "fstat_r E_close_fails (clock world0) 5 = Inr (stat_of 0x81A4 10 0 0)"
    "SameFile (Some regular_10) (Some regular_10)"
    "filter_passes 0 (- 1) (stat_of 0x81A4 10 0 0)"
    "fchown_r E_close_fails (clock world0 + 1) 5 1000 (- 1) = None"
    "close_r E_close_fails (clock world0 + 2) 5 = Some EIO"
    by (simp_all add: E_close_fails_def E_plain_def E_none_def SameFile_def filter_passes_def
        stat_of_def uint32_def)
  note t = close_failure_is_reported_as_RC_ERROR [OF h, where C = ?C and fname = "''/tmp/f''"]
  have h2: "fstat_r E_fchown_fails (clock world0) 5 = Inr (stat_of 0x81A4 10 0 0)"
    "fchown_r E_fchown_fails (clock world0 + 1) 5 1000 (- 1) = Some EIO"
    "close_r E_fchown_fails (clock world0 + 2) 5 = None"
    by (simp_all add: E_fchown_fails_def E_close_fails_def E_plain_def E_none_def)
  have v: "verbose ?C \<and> (\<not> mute ?C \<or> changes ?C)"
    by (simp add: C_default_def)
  have h6: "deref ?C" "open_r E_close_fails (clock world0) ''/tmp/f'' = Inr 3"
    "(3 :: 64 word) \<le> word_of_int MAX_INT"
    "sysstat_r E_close_fails (clock world0 + 1) ''/tmp/f'' = Inr (stat_of 0x81A4 10 0 0)"
    "\<not> is_root (stat_of 0x81A4 10 0 0)"
    "RestrictedChown E_close_fails (sint (3 :: 64 word)) ''/tmp/f'' (Some regular_10) 1000 (- 1) 0 (- 1)
       (tick (EvSysStat ''/tmp/f'') (tick (EvOpen ''/tmp/f'') world0)) = (Normal RC_ERROR, ?W)"
    by (simp_all add: run_defs env_defs mode_defs E_plain_def E_close_fails_def)
  note c1 = t [THEN conjunct1]
  note c2 = t [THEN conjunct2, THEN conjunct1, rule_format, OF h2]
  note c3 = t [THEN conjunct2, THEN conjunct2, THEN conjunct1]
  note c4 = t [THEN conjunct2, THEN conjunct2, THEN conjunct2, THEN conjunct1]
  note c5 = t [THEN conjunct2, THEN conjunct2, THEN conjunct2, THEN conjunct2, THEN conjunct1]
  note c6 = t [THEN conjunct2, THEN conjunct2, THEN conjunct2, THEN conjunct2, THEN conjunct2,
      rule_format, OF h6]
  have d5: "\<forall>stat v. \<exists>m. is_failed_msg m \<and>
      ChangeOwner_report ?C E_close_fails ''/tmp/f'' 1000 (- 1) stat True False True v
        = (Normal False, print m v)"
    using c5 v by (auto simp del: split_paired_Ex)
  have d6: "\<exists>m. is_failed_msg m \<and>
      ChangeOwner ?C E_close_fails ''/tmp/f'' (Some regular_10) 1000 (- 1) 0 (- 1) world0 =
      (Normal False, print m ?W)"
    using c6 v by (auto simp del: split_paired_Ex)
  show ?thesis
    by (intro conjI c1 c2 c3 c4 d5 d6)
qed

text \<open>
  So the close failure is not told apart from a failure of the change: the run in which
  only \<open>close\<close> fails and the run in which \<open>fchown\<close> itself fails end in the same
  result and, under \<open>--verbose\<close>, in the same report, "failed to change ownership".
  With \<open>--changes\<close> alone the close failure prints nothing at all.
\<close>

theorem close_failure_reported_as_failed_change:
  "fchown_r E_close_fails 6 5 1000 (- 1) = None \<and> close_r E_close_fails 7 5 = Some EIO \<and>
   fchown_r E_fchown_fails 6 5 1000 (- 1) = Some EIO \<and>
   ChangeOwner (C_default\<lparr>verbose := True\<rparr>) E_close_fails ''/tmp/f'' (Some regular_10)
       1000 (- 1) 0 (- 1) world0 =
     (Normal False,
      \<lparr>trace = [EvOpen ''/tmp/f'', EvSysStat ''/tmp/f'', EvSysStat ''/tmp/f'', EvOsStat ''/tmp/f'',
                  EvOpenat 3 ''/tmp/f'' O_RDONLY False, EvFstat 5, EvFchown 5 1000 (- 1), EvClose 5,
                  EvPrint (MsgFailedOwnership ''/tmp/f'' (sprintf_spec ''root'' nil_str)
                    (sprintf_spec ''alice'' []))],
       clock = 8, DO_NOT_FOLLOW = False\<rparr>) \<and>
   ChangeOwner (C_default\<lparr>verbose := True\<rparr>) E_fchown_fails ''/tmp/f'' (Some regular_10)
       1000 (- 1) 0 (- 1) world0 =
   ChangeOwner (C_default\<lparr>verbose := True\<rparr>) E_close_fails ''/tmp/f'' (Some regular_10)
       1000 (- 1) 0 (- 1) world0 \<and>
   ChangeOwner (C_default\<lparr>changes := True\<rparr>) E_close_fails ''/tmp/f'' (Some regular_10)
       1000 (- 1) 0 (- 1) world0 =
     (Normal False,
      \<lparr>trace = [EvOpen ''/tmp/f'', EvSysStat ''/tmp/f'', EvSysStat ''/tmp/f'', EvOsStat ''/tmp/f'',
                  EvOpenat 3 ''/tmp/f'' O_RDONLY False, EvFstat 5, EvFchown 5 1000 (- 1), EvClose 5],
       clock = 8, DO_NOT_FOLLOW = False\<rparr>)"
  by (simp add: run_defs env_defs mode_defs E_plain_def E_close_fails_def E_fchown_fails_def)



text \<open>
  Claim C10. In the loop of \<open>walk\<close> without dereference the flag \<open>sym\<close> is set by the
  first symbolic link and never reset: whenever the loop reaches a later child
  \<open>post ! i\<close>, the flag is set, whether or not that child is a link itself. The child is
  then dispatched with the flag set: to the follow-all branch when that policy is active
  and the child is a directory, else to the branch of linked regular files when it is a
  regular file, and else to the ordinary branches. In particular, under \<open>-L\<close> a later
  child that is a directory has \<open>os.Readlink\<close> called on it right after its \<open>os.Lstat\<close>.
\<close>

theorem sym_flag_is_never_reset:
  assumes nd: "\<not> deref C"
    and before: "walk_loop n C E path pre uid gid reqUid reqGid ok symlnk w
                = Some (Normal (ok1, sym1), w1)"
    and lstat: "oslstat_r E (clock w1) (filepath_Join E path link) = Inr fi"
    and link: "fi_mode fi AND ModeSymlink = ModeSymlink"
    and reached: "walk_loop n C E path (pre @ link # take i post) uid gid reqUid reqGid ok symlnk w
                = Some (Normal (ok_i, sym_i), w_i)"
  shows "sym_i \<and>
      (\<forall>m. dispatch C sym_i m =
         (if travAll C \<and> IsDir m then BrFollowLink
          else if IsRegular m then BrSymlinkRegular
          else if IsDir m then BrDirectory
          else BrOther)) \<and>
      (\<forall>fi' r' w'. i < length post \<longrightarrow> travAll C \<longrightarrow>
         oslstat_r E (clock w_i) (filepath_Join E path (post ! i)) = Inr fi' \<longrightarrow>
         IsDir (fi_mode fi') \<longrightarrow>
         walk_child n C E path (post ! i) uid gid reqUid reqGid ok_i sym_i w_i = Some (r', w') \<longrightarrow>
         prefix (trace w_i @ [EvOsLstat (filepath_Join E path (post ! i)),
                              EvReadlink (filepath_Join E path (post ! i))]) (trace w'))"
proof -
  from reached before obtain ok2 s2 w2 where
    one: "walk_child n C E path link uid gid reqUid reqGid ok1 sym1 w1 = Some (Normal (ok2, s2), w2)" and
    rest: "walk_loop n C E path (take i post) uid gid reqUid reqGid ok2 s2 w2
             = Some (Normal (ok_i, sym_i), w_i)"
    by (auto simp: walk_loop_append [of n C E path pre "link # take i post"]
        simp del: walk_child.simps split: option.splits res.splits prod.splits)
  have s2
    using walk_child_sets_flag [OF nd lstat link one] .
  with rest have flag: sym_i
    using walk_loop_keeps_flag [of n C E path "take i post" uid gid reqUid reqGid ok2 w2 ok_i sym_i w_i]
    by simp
  have "prefix (trace w_i @ [EvOsLstat (filepath_Join E path (post ! i)),
                              EvReadlink (filepath_Join E path (post ! i))]) (trace w')"
    if "travAll C" "oslstat_r E (clock w_i) (filepath_Join E path (post ! i)) = Inr fi'"
      "IsDir (fi_mode fi')"
      "walk_child n C E path (post ! i) uid gid reqUid reqGid ok_i sym_i w_i = Some (r', w')"
    for fi' r' w'
    using walk_child_follows [OF nd that(1) that(2) that(3), of n uid gid reqUid reqGid ok_i r' w'] that(4) flag
    by simp
  moreover have "dispatch C sym_i m =
      (if travAll C \<and> IsDir m then BrFollowLink
       else if IsRegular m then BrSymlinkRegular
       else if IsDir m then BrDirectory
       else BrOther)" for m
    using flag by (simp add: dispatch_def)
  ultimately show ?thesis
    using flag by blast
qed

text \<open>The theorem on a directory with the link \<open>a\<close> and the real directory \<open>b\<close>:
  \<open>b\<close> is read as a link, and the walk goes on into the empty path that
  \<open>os.Readlink\<close> returns with its error.\<close>

theorem sym_flag_is_never_reset_witness:
  "oslstat_r E_links 0 ''/d/a'' = Inr (fileinfo_of 0x080001FF 11) \<and>
   walk_loop (Suc 0) C_links E_links ''/d'' [''a''] 1000 (- 1) (- 1) (- 1) True False world0
     = Some (Normal (True, True), W_links_a) \<and>
   oslstat_r E_links 4 ''/d/b'' = Inr (fileinfo_of 0x800001ED 12) \<and>
   walk_child (Suc 0) C_links E_links ''/d'' ''b'' 1000 (- 1) (- 1) (- 1) True True W_links_a
     = Some (Normal (False, True), W_links_end) \<and>
   prefix (trace W_links_a @ [EvOsLstat ''/d/b'', EvReadlink ''/d/b'']) (trace W_links_end)"
proof -
  have nd: "\<not> deref C_links"
    by (simp add: C_links_def env_defs)
  have before: "walk_loop (Suc 0) C_links E_links ''/d'' [] 1000 (- 1) (- 1) (- 1) True False world0
      = Some (Normal (True, False), world0)"
    by simp
  have lstat: "oslstat_r E_links (clock world0) (filepath_Join E_links ''/d'' ''a'')
      = Inr (fileinfo_of 0x080001FF 11)"
    by (simp add: env_defs E_links_def)
  have link: "fi_mode (fileinfo_of 0x080001FF 11) AND ModeSymlink = ModeSymlink"
    by (simp add: fileinfo_of_def ModeSymlink_def)
  have reached: "walk_loop (Suc 0) C_links E_links ''/d'' ([] @ ''a'' # take 0 [''b''])
      1000 (- 1) (- 1) (- 1) True False world0 = Some (Normal (True, True), W_links_a)"
    by (simp add: run_defs env_defs mode_defs E_links_def C_links_def W_links_a_def)
  have i: "0 < length [''b'']"
    by simp
  have ta: "travAll C_links"
    by (simp add: C_links_def env_defs)
  have ls: "oslstat_r E_links (clock W_links_a) (filepath_Join E_links ''/d'' ([''b''] ! 0))
      = Inr (fileinfo_of 0x800001ED 12)"
    by (simp add: env_defs E_links_def)
  have dir: "IsDir (fi_mode (fileinfo_of 0x800001ED 12))"
    by (simp add: fileinfo_of_def mode_defs)
  have child: "walk_child (Suc 0) C_links E_links ''/d'' ([''b''] ! 0) 1000 (- 1) (- 1) (- 1)
      True True W_links_a = Some (Normal (False, True), W_links_end)"
    by (simp add: run_defs env_defs mode_defs E_links_def C_links_def W_links_a_def W_links_end_def)
  note t = sym_flag_is_never_reset [OF nd before lstat link reached]
  from t [THEN conjunct2, THEN conjunct2, rule_format, OF i ta ls dir child]
  have "prefix (trace W_links_a @ [EvOsLstat (filepath_Join E_links ''/d'' ([''b''] ! 0)),
      EvReadlink (filepath_Join E_links ''/d'' ([''b''] ! 0))]) (trace W_links_end)" .
  moreover have "filepath_Join E_links ''/d'' ([''b''] ! 0) = ''/d/b''"
    "filepath_Join E_links ''/d'' ''a'' = ''/d/a''"
    by (simp_all add: env_defs E_links_def)
  moreover have "clock W_links_a = 4" "clock world0 = 0"
    by (simp_all add: W_links_a_def world0_def)
  ultimately show ?thesis
    using lstat reached ls child by simp
qed

text \<open>
  So a later child does not take the branches for links whatever its type: without \<open>-L\<close>
  the real directory \<open>b\<close> that follows the link \<open>a\<close> is reached with the flag set and
  takes the ordinary directory branch (\<open>walk\<close> descends into \<open>/d/b\<close> itself, and
  \<open>os.Readlink\<close> is not called), and a named pipe takes the last branch even under \<open>-L\<close>.
\<close>

theorem later_directory_takes_the_ordinary_branch:
  "walk_loop (Suc 0) C_links_noL E_links ''/d'' [''a''] 1000 (- 1) (- 1) (- 1) True False world0
     = Some (Normal (True, True), W_links_a) \<and>
   oslstat_r E_links 4 ''/d/b'' = Inr (fileinfo_of 0x800001ED 12) \<and>
   dispatch C_links_noL True (fi_mode (fileinfo_of 0x800001ED 12)) = BrDirectory \<and>
   walk_child (Suc 0) C_links_noL E_links ''/d'' ''b'' 1000 (- 1) (- 1) (- 1) True True W_links_a
     = Some (Normal (True, True),
         \<lparr>trace = trace W_links_a @
            [EvOsLstat ''/d/b'', EvOpen ''/d/b'', EvSysStat ''/d/b'', EvLchown ''/d/b'' 1000 (- 1),
             EvOpen ''/d/b'', EvReaddirnames 6, EvFileClose 6],
          clock = 11, DO_NOT_FOLLOW = False\<rparr>) \<and>
   dispatch C_links True (ModeNamedPipe OR 0x1A4) = BrOther"
  by (simp add: run_defs env_defs mode_defs E_links_def C_links_def C_links_noL_def W_links_a_def)

end
